theory Spec2Isabelle
  imports Main
begin

section \<open>JavaScript values as the proxy observes them\<close>

text \<open>
  The proxies read provider replies and the inbound request through \<open>JSON.parse\<close>
  (\<open>await response.json()\<close>, \<open>await req.json()\<close>) and then only read properties,
  test truthiness, compare with \<open>===\<close> against string literals and interpolate into
  template literals. \<open>jsval\<close> is the value domain these operations need. A number is
  kept as its JavaScript string rendering (floating point arithmetic is never performed
  by the proxies); \<open>0\<close> and \<open>-0\<close> both render as \<open>''0''\<close>. An object is its
  property table.
\<close>

datatype jsval =
    JUndefined
  | JNull
  | JBool bool
  | JNum string
  | JStr string
  | JObj "(string \<times> jsval) list"
  | JArr "jsval list"

text \<open>
  What can be thrown: \<open>Error msg\<close> is \<open>new Error(msg)\<close> built by the proxy itself;
  \<open>TypeError\<close> is the runtime's error on reading a property of \<open>null\<close> or
  \<open>undefined\<close>; \<open>Rejected msg\<close> is a rejection coming out of a call into the
  environment (\<open>fetch\<close>, \<open>response.json()\<close>, \<open>req.json()\<close>, \<open>put\<close>, \<open>del\<close>,
  \<open>Buffer.from\<close>) with the message it carries.
\<close>

datatype exn = Error string | TypeError | Rejected string

text \<open>
  Property read \<open>v.key\<close> (also one binding of a destructuring pattern): a
  \<open>TypeError\<close> on \<open>null\<close> and \<open>undefined\<close>, the first entry of the table on an
  object. The proxies only read the keys \<open>data\<close>, \<open>status\<close>, \<open>video_url\<close>,
  \<open>error\<close>, \<open>message\<close>, \<open>avatar_id\<close>, \<open>video_id\<close>, \<open>imageBase64\<close>,
  \<open>audioUrl\<close>, \<open>audioBase64\<close> and \<open>apiKey\<close>, none of which a string, number,
  boolean or array has: there the read gives \<open>undefined\<close>.
\<close>

fun getProp :: "jsval \<Rightarrow> string \<Rightarrow> exn + jsval" where
  "getProp JUndefined key = Inl TypeError"
| "getProp JNull key = Inl TypeError"
| "getProp (JObj kvs) key = (case map_of kvs key of None \<Rightarrow> Inr JUndefined | Some v \<Rightarrow> Inr v)"
| "getProp v key = Inr JUndefined"

text \<open>Optional chaining \<open>v?.key\<close>.\<close>

fun getPropOpt :: "jsval \<Rightarrow> string \<Rightarrow> jsval" where
  "getPropOpt JUndefined key = JUndefined"
| "getPropOpt JNull key = JUndefined"
| "getPropOpt (JObj kvs) key = (case map_of kvs key of None \<Rightarrow> JUndefined | Some v \<Rightarrow> v)"
| "getPropOpt v key = JUndefined"

text \<open>ToBoolean, as used by \<open>!v\<close>, \<open>if (v)\<close> and \<open>a || b\<close>.\<close>

fun truthy :: "jsval \<Rightarrow> bool" where
  "truthy JUndefined = False"
| "truthy JNull = False"
| "truthy (JBool b) = b"
| "truthy (JNum s) = (s \<noteq> ''0'')"
| "truthy (JStr s) = (s \<noteq> [])"
| "truthy (JObj kvs) = True"
| "truthy (JArr xs) = True"

definition jsOr :: "jsval \<Rightarrow> jsval \<Rightarrow> jsval" where
  "jsOr a b = (if truthy a then a else b)"

fun joinComma :: "string list \<Rightarrow> string" where
  "joinComma [] = []"
| "joinComma [s] = s"
| "joinComma (s # t # ss) = s @ '','' @ joinComma (t # ss)"

text \<open>The results of a list of steps: the first error thrown, or all the values.\<close>

fun collect :: "(exn + 'a) list \<Rightarrow> exn + 'a list" where
  "collect [] = Inr []"
| "collect (Inl e # rs) = Inl e"
| "collect (Inr x # rs) = (case collect rs of Inl e \<Rightarrow> Inl e | Inr xs \<Rightarrow> Inr (x # xs))"

text \<open>
  ToString, as applied by a template literal \<open>`${v}`\<close>. A parsed object holds no
  function, so one with an own \<open>toString\<close> key has no callable \<open>toString\<close> and none of
  its \<open>valueOf\<close> gives a primitive: the conversion throws a \<open>TypeError\<close>. Any other
  object renders through \<open>Object.prototype.toString\<close>. An array renders through
  \<open>join\<close>: its elements converted in turn, \<open>null\<close> and \<open>undefined\<close> as the empty
  string, and a throwing element makes the whole conversion throw.
\<close>

fun toString :: "jsval \<Rightarrow> exn + string" where
  "toString JUndefined = Inr ''undefined''"
| "toString JNull = Inr ''null''"
| "toString (JBool b) = Inr (if b then ''true'' else ''false'')"
| "toString (JNum s) = Inr s"
| "toString (JStr s) = Inr s"
| "toString (JObj kvs) =
     (case map_of kvs ''toString'' of
        None \<Rightarrow> Inr ''[object Object]''
      | Some f \<Rightarrow> Inl TypeError)"
| "toString (JArr xs) =
     (case collect (map (\<lambda>x. if x = JUndefined \<or> x = JNull then Inr [] else toString x) xs) of
        Inl e \<Rightarrow> Inl e
      | Inr ss \<Rightarrow> Inr (joinComma ss))"

section \<open>The environment: provider replies, blob store, request\<close>

text \<open>
  A \<open>fetch\<close> either rejects (transport failure) or resolves to a response. Of a response
  the proxies read \<open>ok\<close>, \<open>statusText\<close>, \<open>await text()\<close> and \<open>await json()\<close>.
  \<open>JSON.parse\<close> itself is not modelled: \<open>json_body\<close> is its outcome on the body,
  \<open>Inl\<close> when \<open>json()\<close> rejects.
\<close>

record http_response =
  ok :: bool
  statusText :: string
  text_body :: string
  json_body :: "exn + jsval"

text \<open>
  Lines 253--257 of the blob variant: \<open>Buffer.from(audioBase64, 'base64')\<close> followed by
  \<open>await put(...)\<close>. Either the buffer construction throws (no upload is issued), or the
  upload rejects, or it resolves to a blob whose \<open>url\<close> is the given string.
\<close>

datatype put_outcome = BufferThrows exn | PutRejects exn | PutResolves string

text \<open>
  The replies of the outside world to one invocation: \<open>status_reply w k\<close> answers the
  \<open>k\<close>-th status check (counted from 1), \<open>del_reply\<close> is \<open>Some e\<close> when \<open>del\<close>
  rejects with \<open>e\<close>.
\<close>

record world =
  put_reply :: put_outcome
  avatar_reply :: "exn + http_response"
  generate_reply :: "exn + http_response"
  status_reply :: "nat \<Rightarrow> exn + http_response"
  del_reply :: "exn option"

text \<open>\<open>process.env\<close> of the Vercel functions.\<close>

record env =
  HEYGEN_API_KEY :: "string option"
  BLOB_READ_WRITE_TOKEN :: "string option"

text \<open>The inbound request: its verb and the outcome of \<open>await req.json()\<close>.\<close>

record request =
  http_method :: string
  req_json :: "exn + jsval"

text \<open>
  The effects an invocation performs, in order. The time-derived names
  (\<open>podgen-avatar-${Date.now()}\<close>, \<open>podcast-audio-${Date.now()}.wav\<close>) and the
  credential header are left out of the events.
\<close>

datatype event =
    PutBlob jsval
  | CreateAvatar jsval
  | GenerateVideo jsval jsval
  | StatusCheck jsval
  | Sleep nat
  | DeleteBlob string
  | ConsoleError

text \<open>
  The response handed back to the caller: \<open>TextBody\<close> is a plain body,
  \<open>JsonError m\<close> is \<open>JSON.stringify({ error: m })\<close> for a literal \<open>m\<close>,
  \<open>CaughtError e\<close> is \<open>JSON.stringify({ error: e.message })\<close> for a caught \<open>e\<close>,
  \<open>VideoUrlBody v\<close> is \<open>JSON.stringify({ videoUrl: v })\<close>. The CORS headers are
  constant and left out.
\<close>

datatype body = TextBody string | JsonError string | CaughtError exn | VideoUrlBody jsval

datatype reply = Response nat body

fun status_of :: "reply \<Rightarrow> nat" where
  "status_of (Response s b) = s"

fun body_of :: "reply \<Rightarrow> body" where
  "body_of (Response s b) = b"

section \<open>Configuration constants\<close>

text \<open>\<open>export const config = { maxDuration: 300 }\<close>, in seconds.\<close>

definition maxDuration :: nat where
  "maxDuration = 300"

text \<open>\<open>const maxAttempts = 30\<close> in \<open>pollVideoStatus\<close>.\<close>

definition maxAttempts :: nat where
  "maxAttempts = 30"

text \<open>The delay of \<open>setTimeout(resolve, 10000)\<close>, in milliseconds.\<close>

definition pollIntervalMs :: nat where
  "pollIntervalMs = 10000"

section \<open>pollVideoStatus\<close>

text \<open>\<open>(await response.json()).data.<field>\<close>.\<close>

definition jsonData :: "http_response \<Rightarrow> string \<Rightarrow> exn + jsval" where
  "jsonData r field =
     (case json_body r of
        Inl e \<Rightarrow> Inl e
      | Inr d \<Rightarrow>
          (case getProp d ''data'' of
             Inl e \<Rightarrow> Inl e
           | Inr dd \<Rightarrow> getProp dd field))"

text \<open>
  Lines 38--41: what is thrown on a response that is not \<open>ok\<close>. Reading the error body
  with \<open>json()\<close> may itself reject, \<open>errorBody.message\<close> throws on a \<open>null\<close> body,
  and the template literal throws on a message that has no string rendering.
\<close>

definition statusCheckFailure :: "http_response \<Rightarrow> exn" where
  "statusCheckFailure r =
     (case json_body r of
        Inl e \<Rightarrow> e
      | Inr errorBody \<Rightarrow>
          (case getProp errorBody ''message'' of
             Inl e \<Rightarrow> e
           | Inr m \<Rightarrow>
               (case toString (jsOr m (JStr (statusText r))) of
                  Inl e \<Rightarrow> e
                | Inr text \<Rightarrow> Error (''HeyGen status check failed: '' @ text))))"

text \<open>
  Line 50: what is thrown when the parsed status is \<open>'failed'\<close>: the error built from
  \<open>data.data.error?.message || 'Unknown error'\<close>, or the \<open>TypeError\<close> of the template
  literal when that value has no string rendering.
\<close>

definition jobFailure :: "jsval \<Rightarrow> exn" where
  "jobFailure dd =
     (case getProp dd ''error'' of
        Inl e \<Rightarrow> e
      | Inr err \<Rightarrow>
          (case toString (jsOr (getPropOpt err ''message'') (JStr ''Unknown error'')) of
             Inl e \<Rightarrow> e
           | Inr text \<Rightarrow> Error (''HeyGen video generation failed: '' @ text)))"

text \<open>Lines 57--61: after the loop.\<close>

definition afterLoop :: "jsval \<Rightarrow> jsval \<Rightarrow> exn + jsval" where
  "afterLoop status videoUrl =
     (if status \<noteq> JStr ''succeeded'' then Inl (Error ''HeyGen video generation timed out.'')
      else Inr videoUrl)"

text \<open>
  The \<open>while\<close> loop of lines 31--55, with its variables \<open>status\<close>, \<open>videoUrl\<close>,
  \<open>attempt\<close> and the effects so far as arguments; \<open>replies\<close> are the answers of the
  status endpoint, the only part of the world the loop touches. Each iteration first
  builds the status URL with \<open>${videoId}\<close> (line 33), which throws before any call is
  made when the id has no string rendering. The result is the returned URL or the thrown
  error, with the effects.
\<close>

function pollLoop :: "(nat \<Rightarrow> exn + http_response) \<Rightarrow> jsval \<Rightarrow> jsval \<Rightarrow> jsval \<Rightarrow> nat
                       \<Rightarrow> event list \<Rightarrow> (exn + jsval) \<times> event list" where
  "pollLoop replies videoId status videoUrl attempt log =
     (if status \<noteq> JStr ''succeeded'' \<and> attempt < maxAttempts then
        (case toString videoId of
           Inl e \<Rightarrow> (Inl e, log)
         | Inr idText \<Rightarrow>
            (case replies (attempt + 1) of
               Inl e \<Rightarrow> (Inl e, log @ [StatusCheck videoId])
             | Inr response \<Rightarrow>
                 if \<not> ok response then
                   (Inl (statusCheckFailure response), log @ [StatusCheck videoId])
                 else
                   (case json_body response of
                      Inl e \<Rightarrow> (Inl e, log @ [StatusCheck videoId])
                    | Inr d \<Rightarrow>
                        (case getProp d ''data'' of
                           Inl e \<Rightarrow> (Inl e, log @ [StatusCheck videoId])
                         | Inr dd \<Rightarrow>
                             (case getProp dd ''status'' of
                                Inl e \<Rightarrow> (Inl e, log @ [StatusCheck videoId])
                              | Inr status' \<Rightarrow>
                                  if status' = JStr ''succeeded'' then
                                    (case getProp dd ''video_url'' of
                                       Inl e \<Rightarrow> (Inl e, log @ [StatusCheck videoId])
                                     | Inr videoUrl' \<Rightarrow>
                                         (afterLoop status' videoUrl', log @ [StatusCheck videoId]))
                                  else if status' = JStr ''failed'' then
                                    (Inl (jobFailure dd), log @ [StatusCheck videoId])
                                  else
                                    pollLoop replies videoId status' videoUrl (attempt + 1)
                                      (log @ [StatusCheck videoId, Sleep pollIntervalMs]))))))
      else (afterLoop status videoUrl, log))"
  by pat_completeness auto
termination
  by (relation "measure (\<lambda>(replies, videoId, status, videoUrl, attempt, log). maxAttempts - attempt)")
     auto

text \<open>\<open>pollVideoStatus\<close>, lines 24--62: the loop from \<open>status = ''\<close>, \<open>videoUrl = ''\<close>,
  \<open>attempt = 0\<close>.\<close>

definition pollVideoStatus :: "world \<Rightarrow> jsval \<Rightarrow> (exn + jsval) \<times> event list" where
  "pollVideoStatus w videoId = pollLoop (status_reply w) videoId (JStr []) (JStr []) 0 []"

section \<open>The three proxies\<close>

text \<open>
  Steps 1--3, which the three proxies share word for word: create the avatar from the
  image, submit the video job with the avatar and the audio URL, poll. The result is the
  success response or the thrown error, with the effects appended to \<open>log\<close>.
\<close>

definition runSteps :: "world \<Rightarrow> jsval \<Rightarrow> jsval \<Rightarrow> event list \<Rightarrow> (exn + reply) \<times> event list" where
  "runSteps w imageBase64 audioUrl log =
     (case avatar_reply w of
        Inl e \<Rightarrow> (Inl e, log @ [CreateAvatar imageBase64])
      | Inr avatarResponse \<Rightarrow>
          if \<not> ok avatarResponse then
            (Inl (Error (''HeyGen avatar creation failed: '' @ text_body avatarResponse)),
             log @ [CreateAvatar imageBase64])
          else
            (case jsonData avatarResponse ''avatar_id'' of
               Inl e \<Rightarrow> (Inl e, log @ [CreateAvatar imageBase64])
             | Inr avatarId \<Rightarrow>
                 (case generate_reply w of
                    Inl e \<Rightarrow>
                      (Inl e, log @ [CreateAvatar imageBase64, GenerateVideo avatarId audioUrl])
                  | Inr videoGenResponse \<Rightarrow>
                      if \<not> ok videoGenResponse then
                        (Inl (Error (''HeyGen video generation failed: '' @
                                     text_body videoGenResponse)),
                         log @ [CreateAvatar imageBase64, GenerateVideo avatarId audioUrl])
                      else
                        (case jsonData videoGenResponse ''video_id'' of
                           Inl e \<Rightarrow>
                             (Inl e,
                              log @ [CreateAvatar imageBase64, GenerateVideo avatarId audioUrl])
                         | Inr videoId \<Rightarrow>
                             (case pollVideoStatus w videoId of
                                (Inl e, plog) \<Rightarrow>
                                  (Inl e,
                                   log @ [CreateAvatar imageBase64,
                                          GenerateVideo avatarId audioUrl] @ plog)
                              | (Inr finalVideoUrl, plog) \<Rightarrow>
                                  (Inr (Response 200 (VideoUrlBody finalVideoUrl)),
                                   log @ [CreateAvatar imageBase64,
                                          GenerateVideo avatarId audioUrl] @ plog))))))"

text \<open>\<open>!v\<close> for an environment variable: unset or empty.\<close>

fun configured :: "string option \<Rightarrow> bool" where
  "configured None = False"
| "configured (Some s) = (s \<noteq> [])"

subsection \<open>Vercel function taking an audio URL (first \<open>api/heygen-proxy.ts\<close>)\<close>

text \<open>The \<open>try\<close> block, lines 84--140.\<close>

definition handler_try :: "env \<Rightarrow> world \<Rightarrow> request \<Rightarrow> (exn + reply) \<times> event list" where
  "handler_try e w req =
     (case req_json req of
        Inl x \<Rightarrow> (Inl x, [])
      | Inr b \<Rightarrow>
          (case getProp b ''imageBase64'' of
             Inl x \<Rightarrow> (Inl x, [])
           | Inr imageBase64 \<Rightarrow>
               (case getProp b ''audioUrl'' of
                  Inl x \<Rightarrow> (Inl x, [])
                | Inr audioUrl \<Rightarrow>
                    if \<not> configured (HEYGEN_API_KEY e) then
                      (Inr (Response 500 (JsonError ''HeyGen API key is not configured on the server. Please set the HEYGEN_API_KEY environment variable in your Vercel project.'')), [])
                    else if \<not> truthy imageBase64 \<or> \<not> truthy audioUrl then
                      (Inr (Response 400 (JsonError ''Missing imageBase64 or audioUrl'')), [])
                    else runSteps w imageBase64 audioUrl [])))"

text \<open>The whole handler, lines 64--149: verb checks, then \<open>try\<close>/\<open>catch\<close>.\<close>

definition handler :: "env \<Rightarrow> world \<Rightarrow> request \<Rightarrow> reply \<times> event list" where
  "handler e w req =
     (if http_method req = ''OPTIONS'' then (Response 200 (TextBody ''ok''), [])
      else if http_method req \<noteq> ''POST'' then
        (Response 405 (JsonError ''Method not allowed''), [])
      else
        (case handler_try e w req of
           (Inr resp, log) \<Rightarrow> (resp, log)
         | (Inl err, log) \<Rightarrow> (Response 500 (CaughtError err), log @ [ConsoleError])))"

subsection \<open>Vercel function staging the audio in blob storage (second \<open>api/heygen-proxy.ts\<close>)\<close>

text \<open>
  The \<open>try\<close> block, lines 232--298. Besides its outcome and effects it yields the value
  of \<open>publicAudioUrl\<close> (declared as \<open>''\<close> before the \<open>try\<close>) at its end.
\<close>

definition handler_blob_try :: "env \<Rightarrow> world \<Rightarrow> request \<Rightarrow> (exn + reply) \<times> string \<times> event list" where
  "handler_blob_try e w req =
     (case req_json req of
        Inl x \<Rightarrow> (Inl x, [], [])
      | Inr b \<Rightarrow>
          (case getProp b ''imageBase64'' of
             Inl x \<Rightarrow> (Inl x, [], [])
           | Inr imageBase64 \<Rightarrow>
               (case getProp b ''audioBase64'' of
                  Inl x \<Rightarrow> (Inl x, [], [])
                | Inr audioBase64 \<Rightarrow>
                    if \<not> configured (HEYGEN_API_KEY e) then
                      (Inr (Response 500 (JsonError ''HeyGen API key is not configured. Set HEYGEN_API_KEY in Vercel environment variables.'')), [], [])
                    else if \<not> configured (BLOB_READ_WRITE_TOKEN e) then
                      (Inr (Response 500 (JsonError ''Vercel Blob storage is not configured. Please enable it for your project.'')), [], [])
                    else if \<not> truthy imageBase64 \<or> \<not> truthy audioBase64 then
                      (Inr (Response 400 (JsonError ''Missing imageBase64 or audioBase64'')), [], [])
                    else
                      (case put_reply w of
                         BufferThrows x \<Rightarrow> (Inl x, [], [])
                       | PutRejects x \<Rightarrow> (Inl x, [], [PutBlob audioBase64])
                       | PutResolves publicAudioUrl \<Rightarrow>
                           (case runSteps w imageBase64 (JStr publicAudioUrl) [PutBlob audioBase64] of
                              (res, log) \<Rightarrow> (res, publicAudioUrl, log))))))"

text \<open>
  The \<open>finally\<close> block, lines 305--314: delete the staged blob when \<open>publicAudioUrl\<close>
  is non-empty; a rejection of \<open>del\<close> is caught and logged.
\<close>

definition cleanup :: "world \<Rightarrow> string \<Rightarrow> event list" where
  "cleanup w publicAudioUrl =
     (if publicAudioUrl \<noteq> [] then
        (case del_reply w of
           None \<Rightarrow> [DeleteBlob publicAudioUrl]
         | Some cleanupError \<Rightarrow> [DeleteBlob publicAudioUrl, ConsoleError])
      else [])"

text \<open>
  The whole handler, lines 214--315. The \<open>finally\<close> block has no \<open>return\<close>, so the
  response chosen by \<open>try\<close> or \<open>catch\<close> is the one returned after it has run.
\<close>

definition handler_blob :: "env \<Rightarrow> world \<Rightarrow> request \<Rightarrow> reply \<times> event list" where
  "handler_blob e w req =
     (if http_method req = ''OPTIONS'' then (Response 200 (TextBody ''ok''), [])
      else if http_method req \<noteq> ''POST'' then
        (Response 405 (JsonError ''Method not allowed''), [])
      else
        (case handler_blob_try e w req of
           (Inr resp, publicAudioUrl, log) \<Rightarrow> (resp, log @ cleanup w publicAudioUrl)
         | (Inl err, publicAudioUrl, log) \<Rightarrow>
             (Response 500 (CaughtError err), log @ [ConsoleError] @ cleanup w publicAudioUrl)))"

subsection \<open>Supabase edge function (\<open>serve\<close> callback)\<close>

text \<open>
  The \<open>try\<close> block, lines 82--124. The credential travels in the request body and
  goes into the \<open>X-Api-Key\<close> header of every call, so a credential that has no string
  rendering makes the first \<open>fetch\<close> throw before anything is sent.
\<close>

definition serve_try :: "world \<Rightarrow> request \<Rightarrow> (exn + reply) \<times> event list" where
  "serve_try w req =
     (case req_json req of
        Inl x \<Rightarrow> (Inl x, [])
      | Inr b \<Rightarrow>
          (case getProp b ''imageBase64'' of
             Inl x \<Rightarrow> (Inl x, [])
           | Inr imageBase64 \<Rightarrow>
               (case getProp b ''audioUrl'' of
                  Inl x \<Rightarrow> (Inl x, [])
                | Inr audioUrl \<Rightarrow>
                    (case getProp b ''apiKey'' of
                       Inl x \<Rightarrow> (Inl x, [])
                     | Inr apiKey \<Rightarrow>
                         if \<not> truthy imageBase64 \<or> \<not> truthy audioUrl \<or> \<not> truthy apiKey then
                           (Inr (Response 400 (JsonError ''Missing imageBase64, audioUrl, or apiKey'')), [])
                         else
                           (case toString apiKey of
                              Inl x \<Rightarrow> (Inl x, [])
                            | Inr keyText \<Rightarrow> runSteps w imageBase64 audioUrl [])))))"

text \<open>The callback given to \<open>serve\<close>, lines 76--133.\<close>

definition serve :: "world \<Rightarrow> request \<Rightarrow> reply \<times> event list" where
  "serve w req =
     (if http_method req = ''OPTIONS'' then (Response 200 (TextBody ''ok''), [])
      else
        (case serve_try w req of
           (Inr resp, log) \<Rightarrow> (resp, log)
         | (Inl err, log) \<Rightarrow> (Response 500 (CaughtError err), log @ [ConsoleError])))"

section \<open>Reading the effects\<close>

fun isStatusCheck :: "event \<Rightarrow> bool" where
  "isStatusCheck (StatusCheck v) = True"
| "isStatusCheck ev = False"

fun isDelete :: "event \<Rightarrow> bool" where
  "isDelete (DeleteBlob u) = True"
| "isDelete ev = False"

text \<open>The calls that leave the function over the network.\<close>

fun isNetworkCall :: "event \<Rightarrow> bool" where
  "isNetworkCall (Sleep n) = False"
| "isNetworkCall ConsoleError = False"
| "isNetworkCall ev = True"

definition statusChecks :: "event list \<Rightarrow> nat" where
  "statusChecks log = length (filter isStatusCheck log)"

definition deletions :: "event list \<Rightarrow> nat" where
  "deletions log = length (filter isDelete log)"

definition networkCalls :: "event list \<Rightarrow> event list" where
  "networkCalls log = filter isNetworkCall log"

text \<open>
  The \<open>k\<close>-th status check is answered \<open>ok\<close> and parses to a status that is neither
  \<open>'succeeded'\<close> nor \<open>'failed'\<close>: the job is still processing.
\<close>

definition processingAt :: "world \<Rightarrow> nat \<Rightarrow> bool" where
  "processingAt w k =
     (case status_reply w k of
        Inl e \<Rightarrow> False
      | Inr r \<Rightarrow>
          ok r \<and>
          (case jsonData r ''status'' of
             Inl e \<Rightarrow> False
           | Inr s \<Rightarrow> s \<noteq> JStr ''succeeded'' \<and> s \<noteq> JStr ''failed''))"

text \<open>The rounds of a poll that saw \<open>n\<close> processing answers: a check, then the wait.\<close>

fun rounds :: "nat \<Rightarrow> jsval \<Rightarrow> event list" where
  "rounds 0 videoId = []"
| "rounds (Suc n) videoId = [StatusCheck videoId, Sleep pollIntervalMs] @ rounds n videoId"

text \<open>The avatar call is answered \<open>ok\<close> and \<open>avatarData.data.avatar_id\<close> reads as \<open>avatarId\<close>.\<close>

definition avatarCreated :: "world \<Rightarrow> jsval \<Rightarrow> bool" where
  "avatarCreated w avatarId =
     (case avatar_reply w of
        Inl e \<Rightarrow> False
      | Inr r \<Rightarrow> ok r \<and> jsonData r ''avatar_id'' = Inr avatarId)"

text \<open>The submission is answered \<open>ok\<close> and \<open>videoGenData.data.video_id\<close> reads as \<open>videoId\<close>.\<close>

definition jobSubmitted :: "world \<Rightarrow> jsval \<Rightarrow> bool" where
  "jobSubmitted w videoId =
     (case generate_reply w of
        Inl e \<Rightarrow> False
      | Inr r \<Rightarrow> ok r \<and> jsonData r ''video_id'' = Inr videoId)"

text \<open>
  The \<open>k\<close>-th status check is answered \<open>ok\<close>, parses to status \<open>'succeeded'\<close>, and its
  \<open>data.data.video_url\<close> reads as \<open>v\<close> (\<open>JUndefined\<close> when the field is absent).
\<close>

definition succeededAt :: "world \<Rightarrow> nat \<Rightarrow> jsval \<Rightarrow> bool" where
  "succeededAt w k v =
     (case status_reply w k of
        Inl e \<Rightarrow> False
      | Inr r \<Rightarrow>
          ok r \<and> jsonData r ''status'' = Inr (JStr ''succeeded'') \<and>
          jsonData r ''video_url'' = Inr v)"

text \<open>
  The request body decodes and the pattern \<open>{ imageBase64, <audioField> }\<close> binds the two
  values; \<open>None\<close> when \<open>req.json()\<close> rejects or the body is \<open>null\<close>.
\<close>

definition destructured :: "request \<Rightarrow> string \<Rightarrow> (jsval \<times> jsval) option" where
  "destructured req audioField =
     (case req_json req of
        Inl x \<Rightarrow> None
      | Inr b \<Rightarrow>
          (case getProp b ''imageBase64'' of
             Inl x \<Rightarrow> None
           | Inr imageBase64 \<Rightarrow>
               (case getProp b audioField of
                  Inl x \<Rightarrow> None
                | Inr audio \<Rightarrow> Some (imageBase64, audio))))"

text \<open>The response is a success whose body carries a non-empty URL string.\<close>

fun returnsVideoUrl :: "reply \<Rightarrow> bool" where
  "returnsVideoUrl (Response s (VideoUrlBody (JStr u))) = (s = 200 \<and> u \<noteq> [])"
| "returnsVideoUrl r = False"

text \<open>
  The request does not supply the image or the audio input: the field the pattern binds
  is falsy (absent, \<open>null\<close>, empty, \<open>0\<close> or \<open>false\<close>), or there is no body to bind
  it from (\<open>req.json()\<close> rejects, or the body is \<open>null\<close>).
\<close>

definition missingInput :: "request \<Rightarrow> string \<Rightarrow> bool" where
  "missingInput req audioField =
     (case destructured req audioField of
        None \<Rightarrow> True
      | Some (imageBase64, audio) \<Rightarrow> \<not> truthy imageBase64 \<or> \<not> truthy audio)"

text \<open>The time an invocation spends in \<open>setTimeout\<close> waits, in milliseconds.\<close>

fun sleepTotal :: "event list \<Rightarrow> nat" where
  "sleepTotal [] = 0"
| "sleepTotal (Sleep ms # evs) = ms + sleepTotal evs"
| "sleepTotal (ev # evs) = sleepTotal evs"

section \<open>Example invocations\<close>

text \<open>
  The end-to-end scenario: image \<open>IMG\<close>, raw audio \<open>AUD\<close>, staging at
  \<open>https://store/ex1.wav\<close>, avatar \<open>avatar_42\<close>, job \<open>job_7\<close>, status checks answering
  processing, processing, succeeded with \<open>https://cdn/out.mp4\<close>.
\<close>

text \<open>An \<open>ok\<close> answer with a JSON body; \<open>text()\<close> is never read on such an answer.\<close>

definition jsonReply :: "jsval \<Rightarrow> http_response" where
  "jsonReply v = \<lparr>ok = True, statusText = ''OK'', text_body = [], json_body = Inr v\<rparr>"

definition dataReply :: "(string \<times> jsval) list \<Rightarrow> http_response" where
  "dataReply kvs = jsonReply (JObj [(''data'', JObj kvs)])"

definition ex_env :: env where
  "ex_env = \<lparr>HEYGEN_API_KEY = Some ''key'', BLOB_READ_WRITE_TOKEN = Some ''token''\<rparr>"

definition ex_request :: request where
  "ex_request =
     \<lparr>http_method = ''POST'',
      req_json = Inr (JObj [(''imageBase64'', JStr ''IMG''), (''audioBase64'', JStr ''AUD'')])\<rparr>"

definition ex_world :: world where
  "ex_world =
     \<lparr>put_reply = PutResolves ''https://store/ex1.wav'',
      avatar_reply = Inr (dataReply [(''avatar_id'', JStr ''avatar_42'')]),
      generate_reply = Inr (dataReply [(''video_id'', JStr ''job_7'')]),
      status_reply = (\<lambda>k. if k < 3 then Inr (dataReply [(''status'', JStr ''processing'')])
                          else Inr (dataReply [(''status'', JStr ''succeeded''),
                                               (''video_url'', JStr ''https://cdn/out.mp4'')])),
      del_reply = None\<rparr>"

text \<open>The same request with the audio given as a URL, for the two proxies that take one.\<close>

definition ex_url_request :: request where
  "ex_url_request =
     \<lparr>http_method = ''POST'',
      req_json = Inr (JObj [(''imageBase64'', JStr ''IMG''),
                            (''audioUrl'', JStr ''https://host/a.wav''),
                            (''apiKey'', JStr ''key'')])\<rparr>"

text \<open>A provider that answers \<open>succeeded\<close> at once, without a \<open>video_url\<close> field.\<close>

definition ex_world_no_url :: world where
  "ex_world_no_url =
     ex_world\<lparr>status_reply := (\<lambda>k. Inr (dataReply [(''status'', JStr ''succeeded'')]))\<rparr>"

text \<open>A provider whose job never leaves \<open>processing\<close>.\<close>

definition ex_world_stuck :: world where
  "ex_world_stuck =
     ex_world\<lparr>status_reply := (\<lambda>k. Inr (dataReply [(''status'', JStr ''processing'')]))\<rparr>"

text \<open>A provider that reports \<open>failed\<close> on the third check, with a message.\<close>

definition ex_failed_data :: jsval where
  "ex_failed_data =
     JObj [(''status'', JStr ''failed''), (''error'', JObj [(''message'', JStr ''render crashed'')])]"

definition ex_world_failed :: world where
  "ex_world_failed =
     ex_world\<lparr>status_reply :=
       (\<lambda>k. if k < 3 then Inr (dataReply [(''status'', JStr ''processing'')])
             else Inr (jsonReply (JObj [(''data'', ex_failed_data)])))\<rparr>"

text \<open>A status endpoint that answers 502 with a JSON error body on the second check.\<close>

definition ex_bad_gateway :: http_response where
  "ex_bad_gateway =
     \<lparr>ok = False, statusText = ''Bad Gateway'', text_body = [],
      json_body = Inr (JObj [(''message'', JStr ''upstream down'')])\<rparr>"

definition ex_world_bad_gateway :: world where
  "ex_world_bad_gateway =
     ex_world\<lparr>status_reply :=
       (\<lambda>k. if k < 2 then Inr (dataReply [(''status'', JStr ''processing'')])
             else Inr ex_bad_gateway)\<rparr>"

text \<open>An avatar endpoint that rejects the image with the plain body \<open>invalid image\<close>.\<close>

definition ex_invalid_image :: http_response where
  "ex_invalid_image =
     \<lparr>ok = False, statusText = ''Bad Request'', text_body = ''invalid image'',
      json_body = Inl (Rejected ''Unexpected token i in JSON at position 0'')\<rparr>"

definition ex_world_invalid_image :: world where
  "ex_world_invalid_image =
     ex_world\<lparr>avatar_reply := Inr ex_invalid_image, del_reply := Some (Rejected ''blob not found'')\<rparr>"

text \<open>A deployment without the provider credential, and a request with an empty object.\<close>

definition ex_env_no_key :: env where
  "ex_env_no_key = \<lparr>HEYGEN_API_KEY = None, BLOB_READ_WRITE_TOKEN = Some ''token''\<rparr>"

definition ex_empty_request :: request where
  "ex_empty_request = \<lparr>http_method = ''POST'', req_json = Inr (JObj [])\<rparr>"

text \<open>A submission sent with the verb \<open>PUT\<close>.\<close>

definition ex_put_request :: request where
  "ex_put_request = ex_url_request\<lparr>http_method := ''PUT''\<rparr>"

text \<open>A gateway in front of the status endpoint that answers 502 with an HTML page.\<close>

definition ex_html_502 :: http_response where
  "ex_html_502 =
     \<lparr>ok = False, statusText = ''Bad Gateway'', text_body = ''<html>502 Bad Gateway</html>'',
      json_body = Inl (Rejected ''Unexpected token < in JSON at position 0'')\<rparr>"

definition ex_world_html_502 :: world where
  "ex_world_html_502 = ex_world\<lparr>status_reply := (\<lambda>k. Inr ex_html_502)\<rparr>"



text \<open>A \<open>GET\<close> request, which has no body, and a \<open>POST\<close> whose body is \<open>null\<close>.\<close>

definition ex_get_request :: request where
  "ex_get_request =
     \<lparr>http_method = ''GET'', req_json = Inl (Rejected ''Unexpected end of JSON input'')\<rparr>"

definition ex_null_request :: request where
  "ex_null_request = \<lparr>http_method = ''POST'', req_json = Inr JNull\<rparr>"


section \<open>The polling loop\<close>

declare pollLoop.simps [simp del]

text \<open>
  At the head of the loop only the test \<open>status !== 'succeeded'\<close> reads \<open>status\<close>, so
  two values that both differ from \<open>'succeeded'\<close> behave alike.
\<close>

lemma pollLoop_status_irrelevant:
  "s \<noteq> JStr ''succeeded'' \<Longrightarrow> s' \<noteq> JStr ''succeeded'' \<Longrightarrow>
   pollLoop rs vid s vu a log = pollLoop rs vid s' vu a log"
  by (subst pollLoop.simps, subst (2) pollLoop.simps) (simp add: afterLoop_def)

lemma jsonData_InrD:
  "jsonData r field = Inr x \<Longrightarrow>
   \<exists>d dd. json_body r = Inr d \<and> getProp d ''data'' = Inr dd \<and> getProp dd field = Inr x"
  by (auto simp: jsonData_def split: sum.splits)

text \<open>One iteration on a processing answer: a check, the wait, and the next attempt.\<close>

lemma pollLoop_processing_step:
  assumes "s \<noteq> JStr ''succeeded''" "a < maxAttempts" "processingAt w (Suc a)"
    and "toString vid = Inr idText"
  shows "pollLoop (status_reply w) vid s vu a log =
         pollLoop (status_reply w) vid s vu (Suc a)
           (log @ [StatusCheck vid, Sleep pollIntervalMs])"
proof -
  from assms(3) obtain r st where r: "status_reply w (Suc a) = Inr r" "ok r"
    and st: "jsonData r ''status'' = Inr st" "st \<noteq> JStr ''succeeded''" "st \<noteq> JStr ''failed''"
    by (auto simp: processingAt_def split: sum.splits)
  from jsonData_InrD [OF st(1)] obtain d dd where d: "json_body r = Inr d"
      "getProp d ''data'' = Inr dd" "getProp dd ''status'' = Inr st"
    by blast
  have "pollLoop (status_reply w) vid s vu a log =
        pollLoop (status_reply w) vid st vu (Suc a)
          (log @ [StatusCheck vid, Sleep pollIntervalMs])"
    using assms(1,2,4) r d st(2,3) by (subst pollLoop.simps) simp
  also have "\<dots> = pollLoop (status_reply w) vid s vu (Suc a)
                     (log @ [StatusCheck vid, Sleep pollIntervalMs])"
    using st(2) assms(1) by (rule pollLoop_status_irrelevant)
  finally show ?thesis .
qed

lemma pollLoop_rounds:
  "s \<noteq> JStr ''succeeded'' \<Longrightarrow> toString vid = Inr idText \<Longrightarrow> a + n \<le> maxAttempts \<Longrightarrow>
   (\<forall>j. a < j \<and> j \<le> a + n \<longrightarrow> processingAt w j) \<Longrightarrow>
   pollLoop (status_reply w) vid s vu a log =
   pollLoop (status_reply w) vid s vu (a + n) (log @ rounds n vid)"
proof (induction n arbitrary: a log)
  case 0
  then show ?case by simp
next
  case (Suc n)
  have "pollLoop (status_reply w) vid s vu a log =
        pollLoop (status_reply w) vid s vu (Suc a)
          (log @ [StatusCheck vid, Sleep pollIntervalMs])"
    using Suc.prems by (intro pollLoop_processing_step) auto
  also have "\<dots> = pollLoop (status_reply w) vid s vu (Suc a + n)
                     ((log @ [StatusCheck vid, Sleep pollIntervalMs]) @ rounds n vid)"
    using Suc.prems by (intro Suc.IH) auto
  finally show ?case by simp
qed

lemma statusChecks_rounds: "statusChecks (rounds n vid) = n"
  by (induction n) (simp_all add: statusChecks_def)

lemma statusChecks_append: "statusChecks (xs @ ys) = statusChecks xs + statusChecks ys"
  by (simp add: statusChecks_def)

lemma statusChecks_rounds_last:
  "1 \<le> k \<Longrightarrow> statusChecks (rounds (k - 1) vid @ [StatusCheck vid]) = k"
  by (simp add: statusChecks_append statusChecks_rounds) (simp add: statusChecks_def)

lemma pollVideoStatus_rounds:
  assumes "n \<le> maxAttempts" "\<forall>j. 1 \<le> j \<and> j \<le> n \<longrightarrow> processingAt w j"
    and "toString vid = Inr idText"
  shows "pollVideoStatus w vid =
         pollLoop (status_reply w) vid (JStr []) (JStr []) n (rounds n vid)"
  using pollLoop_rounds [of "JStr []" vid idText 0 n w "JStr []" "[]"] assms
  by (simp add: pollVideoStatus_def)

text \<open>The \<open>k\<close>-th check is issued exactly when the \<open>k - 1\<close> answers before it were processing.\<close>

lemma poll_reaches:
  assumes "1 \<le> k" "k \<le> maxAttempts" "\<forall>j. 1 \<le> j \<and> j < k \<longrightarrow> processingAt w j"
    and "toString vid = Inr idText"
  shows "pollVideoStatus w vid =
         pollLoop (status_reply w) vid (JStr []) (JStr []) (k - 1) (rounds (k - 1) vid)"
  using assms by (intro pollVideoStatus_rounds [where idText = idText]) auto

text \<open>Once one property of a value could be read, reading any other one does not throw.\<close>

lemma getProp_after_status:
  "getProp dd field = Inr s \<Longrightarrow> getProp dd key = Inr (getPropOpt dd key)"
  by (cases dd) (auto split: option.splits)

text \<open>A successful answer at check \<open>n\<close> ends the poll with the URL it carries.\<close>

lemma poll_succeeds:
  assumes "1 \<le> n" "n \<le> 30" "\<forall>j. 1 \<le> j \<and> j < n \<longrightarrow> processingAt w j"
    and "succeededAt w n v" "toString vid = Inr idText"
  shows "pollVideoStatus w vid = (Inr v, rounds (n - 1) vid @ [StatusCheck vid])"
proof -
  from assms(4) obtain r where r: "status_reply w n = Inr r" "ok r"
    and st: "jsonData r ''status'' = Inr (JStr ''succeeded'')"
    and vu: "jsonData r ''video_url'' = Inr v"
    by (auto simp: succeededAt_def split: sum.splits)
  from jsonData_InrD [OF st] obtain d dd where d: "json_body r = Inr d"
      "getProp d ''data'' = Inr dd" "getProp dd ''status'' = Inr (JStr ''succeeded'')"
    by blast
  from jsonData_InrD [OF vu] d(1,2) have v: "getProp dd ''video_url'' = Inr v"
    by auto
  have k: "n - 1 < maxAttempts" "n - 1 + 1 = n"
    using assms(1,2) by (simp_all add: maxAttempts_def)
  have "pollVideoStatus w vid =
        pollLoop (status_reply w) vid (JStr []) (JStr []) (n - 1) (rounds (n - 1) vid)"
    using assms(1-3,5) by (intro poll_reaches [where idText = idText]) (simp_all add: maxAttempts_def)
  also have "\<dots> = (Inr v, rounds (n - 1) vid @ [StatusCheck vid])"
    using k r d v assms(5) by (subst pollLoop.simps) (simp add: afterLoop_def)
  finally show ?thesis .
qed

text \<open>The poll never deletes anything, and does not look at the blob store.\<close>

lemma deletions_append: "deletions (xs @ ys) = deletions xs + deletions ys"
  by (simp add: deletions_def)

lemma deletions_simps [simp]:
  "deletions [] = 0"
  "deletions (StatusCheck v # xs) = deletions xs"
  "deletions (Sleep n # xs) = deletions xs"
  "deletions (CreateAvatar i # xs) = deletions xs"
  "deletions (GenerateVideo a u # xs) = deletions xs"
  "deletions (PutBlob b # xs) = deletions xs"
  "deletions (ConsoleError # xs) = deletions xs"
  "deletions (DeleteBlob url # xs) = Suc (deletions xs)"
  by (simp_all add: deletions_def)

lemma pollLoop_deletions:
  "deletions (snd (pollLoop rs vid s vu a log)) = deletions log"
proof (induction "maxAttempts - a" arbitrary: a s log rule: less_induct)
  case less
  show ?case
  proof (cases "s \<noteq> JStr ''succeeded'' \<and> a < maxAttempts")
    case False
    then show ?thesis by (subst pollLoop.simps) auto
  next
    case True
    have IH: "deletions (snd (pollLoop rs vid s' vu (Suc a) log')) = deletions log'" for s' log'
      by (rule less) (use True in arith)
    show ?thesis
      using True by (subst pollLoop.simps) (simp add: IH deletions_append split: sum.split)
  qed
qed

lemma pollVideoStatus_deletionsD:
  "pollVideoStatus w vid = (res, plog) \<Longrightarrow> deletions plog = 0"
  using pollLoop_deletions [of "status_reply w" vid "JStr []" "JStr []" 0 "[]"]
  by (simp add: pollVideoStatus_def)

lemma pollVideoStatus_del_reply:
  "pollVideoStatus (w\<lparr>del_reply := d\<rparr>) vid = pollVideoStatus w vid"
  by (simp add: pollVideoStatus_def)

section \<open>Steps 1--3\<close>

lemma runSteps_del_reply:
  "runSteps (w\<lparr>del_reply := d\<rparr>) img aud log = runSteps w img aud log"
  by (simp add: runSteps_def pollVideoStatus_del_reply cong: sum.case_cong if_cong)

lemma runSteps_deletions:
  "deletions (snd (runSteps w img aud log)) = deletions log"
  by (auto simp: runSteps_def deletions_append split: sum.split prod.split
           dest: pollVideoStatus_deletionsD)

lemma runSteps_succeeds:
  assumes "avatarCreated w aid" "jobSubmitted w vid"
    and "1 \<le> n" "n \<le> 30" "\<forall>j. 1 \<le> j \<and> j < n \<longrightarrow> processingAt w j"
    and "succeededAt w n v" "toString vid = Inr idText"
  shows "runSteps w img aud log =
         (Inr (Response 200 (VideoUrlBody v)),
          log @ [CreateAvatar img, GenerateVideo aid aud] @ rounds (n - 1) vid @ [StatusCheck vid])"
  using assms(1,2) poll_succeeds [OF assms(3-7)]
  by (auto simp: runSteps_def avatarCreated_def jobSubmitted_def split: sum.splits)

lemma runSteps_avatar_rejected:
  assumes "avatar_reply w = Inr r" "\<not> ok r"
  shows "runSteps w img aud log =
         (Inl (Error (''HeyGen avatar creation failed: '' @ text_body r)),
          log @ [CreateAvatar img])"
  using assms by (simp add: runSteps_def)


section \<open>The claims about the poll\<close>

text \<open>
  C3. If each of the 30 status checks is answered with a status that is neither
  \<open>'succeeded'\<close> nor \<open>'failed'\<close>, \<open>pollVideoStatus\<close> (called with an id the status
  URL can be built from, as every string is) issues exactly 30 status checks, each
  followed by the 10 second wait, and then throws the time-out error; it returns no URL.
\<close>

theorem poll_timeout_after_thirty_checks:
  assumes "\<forall>k. 1 \<le> k \<and> k \<le> 30 \<longrightarrow> processingAt w k"
    and "toString videoId = Inr idText"
  shows "pollVideoStatus w videoId =
           (Inl (Error ''HeyGen video generation timed out.''), rounds 30 videoId)
         \<and> statusChecks (snd (pollVideoStatus w videoId)) = 30"
proof -
  have "pollVideoStatus w videoId =
        pollLoop (status_reply w) videoId (JStr []) (JStr []) 30 (rounds 30 videoId)"
    using assms by (intro pollVideoStatus_rounds [where idText = idText])
      (simp_all add: maxAttempts_def)
  also have "\<dots> = (Inl (Error ''HeyGen video generation timed out.''), rounds 30 videoId)"
    by (subst pollLoop.simps) (simp add: maxAttempts_def afterLoop_def)
  finally show ?thesis by (simp add: statusChecks_rounds)
qed

lemma ex_world_stuck_processing:
  "\<forall>k. 1 \<le> k \<and> k \<le> 30 \<longrightarrow> processingAt ex_world_stuck k"
  by (simp add: processingAt_def ex_world_stuck_def ex_world_def dataReply_def jsonReply_def
      jsonData_def)

theorem poll_timeout_witness:
  "pollVideoStatus ex_world_stuck (JStr ''job_7'') =
     (Inl (Error ''HeyGen video generation timed out.''), rounds 30 (JStr ''job_7''))
   \<and> statusChecks (snd (pollVideoStatus ex_world_stuck (JStr ''job_7''))) = 30"
proof -
  have rendered: "toString (JStr ''job_7'') = Inr ''job_7''"
    by simp
  show ?thesis
    by (rule poll_timeout_after_thirty_checks [OF ex_world_stuck_processing rendered])
qed

subsection \<open>A job reported failed\<close>

text \<open>
  After \<open>k - 1\<close> processing answers, an answer that parses to status \<open>'failed'\<close> at
  check \<open>k\<close> ends the poll at once: the \<open>k\<close>-th check is the last effect, with no wait
  and no further check. What is thrown is the error of line 50: \<open>HeyGen video generation
  failed: \<close> followed by the rendering of \<open>data.data.error?.message || 'Unknown error'\<close>
  when that value has one, the \<open>TypeError\<close> of the template literal when it has none.
\<close>

lemma poll_failed_stops_at_once:
  assumes "1 \<le> k" "k \<le> 30" "\<forall>j. 1 \<le> j \<and> j < k \<longrightarrow> processingAt w j"
    and "toString videoId = Inr idText"
    and "status_reply w k = Inr r" "ok r"
    and "json_body r = Inr d" "getProp d ''data'' = Inr dd"
    and "getProp dd ''status'' = Inr (JStr ''failed'')"
  shows "pollVideoStatus w videoId =
           (Inl (case toString (jsOr (getPropOpt (getPropOpt dd ''error'') ''message'')
                                     (JStr ''Unknown error'')) of
                   Inl e \<Rightarrow> e
                 | Inr text \<Rightarrow> Error (''HeyGen video generation failed: '' @ text)),
            rounds (k - 1) videoId @ [StatusCheck videoId])"
    and "statusChecks (snd (pollVideoStatus w videoId)) = k"
    and "getPropOpt (getPropOpt dd ''error'') ''message'' = JStr m \<Longrightarrow> m \<noteq> [] \<Longrightarrow>
         fst (pollVideoStatus w videoId) =
           Inl (Error (''HeyGen video generation failed: '' @ m))"
proof -
  have k: "k - 1 < maxAttempts" "k - 1 + 1 = k"
    using assms(1,2) by (simp_all add: maxAttempts_def)
  have "pollVideoStatus w videoId =
        pollLoop (status_reply w) videoId (JStr []) (JStr []) (k - 1) (rounds (k - 1) videoId)"
    using assms(1-4) by (intro poll_reaches [where idText = idText])
      (simp_all add: maxAttempts_def)
  also have "\<dots> = (Inl (jobFailure dd), rounds (k - 1) videoId @ [StatusCheck videoId])"
    using k assms(4-9) by (subst pollLoop.simps) simp
  finally have res: "pollVideoStatus w videoId =
      (Inl (jobFailure dd), rounds (k - 1) videoId @ [StatusCheck videoId])" .
  have jf: "jobFailure dd =
      (case toString (jsOr (getPropOpt (getPropOpt dd ''error'') ''message'')
                           (JStr ''Unknown error'')) of
         Inl e \<Rightarrow> e
       | Inr text \<Rightarrow> Error (''HeyGen video generation failed: '' @ text))"
    using getProp_after_status [OF assms(9), of "''error''"] by (simp add: jobFailure_def)
  show "pollVideoStatus w videoId =
           (Inl (case toString (jsOr (getPropOpt (getPropOpt dd ''error'') ''message'')
                                     (JStr ''Unknown error'')) of
                   Inl e \<Rightarrow> e
                 | Inr text \<Rightarrow> Error (''HeyGen video generation failed: '' @ text)),
            rounds (k - 1) videoId @ [StatusCheck videoId])"
    using res jf by simp
  show "statusChecks (snd (pollVideoStatus w videoId)) = k"
    using res statusChecks_rounds_last [OF assms(1), of videoId] by simp
  show "fst (pollVideoStatus w videoId) =
           Inl (Error (''HeyGen video generation failed: '' @ m))"
    if "getPropOpt (getPropOpt dd ''error'') ''message'' = JStr m" "m \<noteq> []"
    using res jf that by (simp add: jsOr_def)
qed

text \<open>A job that fails on the third check with the message \<open>render crashed\<close>.\<close>

lemma poll_failed_example:
  "pollVideoStatus ex_world_failed (JStr ''job_7'') =
     (Inl (Error ''HeyGen video generation failed: render crashed''),
      [StatusCheck (JStr ''job_7''), Sleep 10000, StatusCheck (JStr ''job_7''), Sleep 10000,
       StatusCheck (JStr ''job_7'')])"
proof -
  have before: "\<forall>j. 1 \<le> j \<and> j < 3 \<longrightarrow> processingAt ex_world_failed j"
    by (simp add: processingAt_def ex_world_failed_def ex_world_def dataReply_def jsonReply_def
        jsonData_def)
  have third: "status_reply ex_world_failed 3 = Inr (jsonReply (JObj [(''data'', ex_failed_data)]))"
    by (simp add: ex_world_failed_def ex_world_def)
  have failed: "getProp ex_failed_data ''status'' = Inr (JStr ''failed'')"
    by (simp add: ex_failed_data_def)
  have msg: "getPropOpt (getPropOpt ex_failed_data ''error'') ''message'' = JStr ''render crashed''"
    by (simp add: ex_failed_data_def)
  from poll_failed_stops_at_once(1) [of 3 ex_world_failed "JStr ''job_7''" _ _ _ ex_failed_data,
      OF _ _ before _ third _ _ _ failed]
  show ?thesis
    by (simp add: msg jsonReply_def jsOr_def numeral_3_eq_3 pollIntervalMs_def)
qed


subsection \<open>A status check that fails\<close>

text \<open>
  After \<open>k - 1\<close> processing answers, a \<open>k\<close>-th status check that is answered with a
  response that is not \<open>ok\<close>, or whose \<open>fetch\<close> rejects, ends the poll at once: the
  \<open>k\<close>-th check is the last effect, with no wait and no further check, so nothing is
  retried. What is thrown for a response that is not \<open>ok\<close> is what lines 38--41 throw:
  when the error body decodes to a value other than \<open>null\<close> whose \<open>message\<close> (or else
  the status text) is a string, the error \<open>HeyGen status check failed: \<close> with that
  string.
\<close>

lemma poll_status_check_failure_not_retried:
  assumes "1 \<le> k" "k \<le> 30" "\<forall>j. 1 \<le> j \<and> j < k \<longrightarrow> processingAt w j"
    and "toString videoId = Inr idText"
  shows "status_reply w k = Inr r \<Longrightarrow> \<not> ok r \<Longrightarrow>
         pollVideoStatus w videoId =
           (Inl (statusCheckFailure r), rounds (k - 1) videoId @ [StatusCheck videoId])"
    and "status_reply w k = Inr r \<Longrightarrow> \<not> ok r \<Longrightarrow> json_body r = Inr b \<Longrightarrow>
         getProp b ''message'' = Inr m \<Longrightarrow> jsOr m (JStr (statusText r)) = JStr text \<Longrightarrow>
         fst (pollVideoStatus w videoId) =
           Inl (Error (''HeyGen status check failed: '' @ text))"
    and "status_reply w k = Inl e \<Longrightarrow>
         pollVideoStatus w videoId =
           (Inl e, rounds (k - 1) videoId @ [StatusCheck videoId])"
    and "statusChecks (rounds (k - 1) videoId @ [StatusCheck videoId]) = k"
proof -
  have k: "k - 1 < maxAttempts" "k - 1 + 1 = k"
    using assms(1,2) by (simp_all add: maxAttempts_def)
  have start: "pollVideoStatus w videoId =
        pollLoop (status_reply w) videoId (JStr []) (JStr []) (k - 1) (rounds (k - 1) videoId)"
    using assms by (intro poll_reaches [where idText = idText]) (simp_all add: maxAttempts_def)
  show a: "pollVideoStatus w videoId =
      (Inl (statusCheckFailure r), rounds (k - 1) videoId @ [StatusCheck videoId])"
    if "status_reply w k = Inr r" "\<not> ok r"
    unfolding start using k that assms(4) by (subst pollLoop.simps) simp
  show "pollVideoStatus w videoId =
      (Inl e, rounds (k - 1) videoId @ [StatusCheck videoId])"
    if "status_reply w k = Inl e"
    unfolding start using k that assms(4) by (subst pollLoop.simps) simp
  show "fst (pollVideoStatus w videoId) =
      Inl (Error (''HeyGen status check failed: '' @ text))"
    if "status_reply w k = Inr r" "\<not> ok r" "json_body r = Inr b"
      "getProp b ''message'' = Inr m" "jsOr m (JStr (statusText r)) = JStr text"
    using a [OF that(1,2)] that(3-5) by (simp add: statusCheckFailure_def)
  show "statusChecks (rounds (k - 1) videoId @ [StatusCheck videoId]) = k"
    by (rule statusChecks_rounds_last [OF assms(1)])
qed

text \<open>A status endpoint that answers 502 with a JSON error body on the second check.\<close>

lemma poll_status_check_example:
  "pollVideoStatus ex_world_bad_gateway (JStr ''job_7'') =
     (Inl (Error ''HeyGen status check failed: upstream down''),
      [StatusCheck (JStr ''job_7''), Sleep 10000, StatusCheck (JStr ''job_7'')])"
proof -
  have before: "\<forall>j. 1 \<le> j \<and> j < 2 \<longrightarrow> processingAt ex_world_bad_gateway j"
    by (simp add: processingAt_def ex_world_bad_gateway_def ex_world_def dataReply_def
        jsonReply_def jsonData_def)
  have second: "status_reply ex_world_bad_gateway 2 = Inr ex_bad_gateway"
    by (simp add: ex_world_bad_gateway_def ex_world_def)
  have bad: "\<not> ok ex_bad_gateway"
    by (simp add: ex_bad_gateway_def)
  have thrown: "statusCheckFailure ex_bad_gateway =
      Error ''HeyGen status check failed: upstream down''"
    by (simp add: statusCheckFailure_def ex_bad_gateway_def jsOr_def)
  from poll_status_check_failure_not_retried(1) [of 2 ex_world_bad_gateway "JStr ''job_7''" _
      ex_bad_gateway, OF _ _ before _ second bad]
  show ?thesis
    by (simp add: thrown pollIntervalMs_def)
qed

text \<open>
  C5 does not hold for every answer the status endpoint can give. When the answer that
  is not \<open>ok\<close> carries a body that is not JSON (a gateway's HTML page),
  \<open>await response.json()\<close> on line 39 rejects before the error of line 40 is built: the
  poll still stops at the first check and retries nothing, but what it throws is the
  parser's error, not the status-check error.
\<close>

theorem status_check_with_html_body_throws_parse_error:
  "pollVideoStatus ex_world_html_502 (JStr ''job_7'') =
     (Inl (Rejected ''Unexpected token < in JSON at position 0''),
      [StatusCheck (JStr ''job_7'')])"
proof -
  have first: "status_reply ex_world_html_502 1 = Inr ex_html_502"
    by (simp add: ex_world_html_502_def ex_world_def)
  have bad: "\<not> ok ex_html_502"
    by (simp add: ex_html_502_def)
  have thrown: "statusCheckFailure ex_html_502 =
      Rejected ''Unexpected token < in JSON at position 0''"
    by (simp add: statusCheckFailure_def ex_html_502_def)
  from poll_status_check_failure_not_retried(1) [of 1 ex_world_html_502 "JStr ''job_7''" _
      ex_html_502, OF _ _ _ _ first bad]
  show ?thesis
    by (simp add: thrown)
qed

subsection \<open>Time budget\<close>

lemma sleepTotal_append: "sleepTotal (xs @ ys) = sleepTotal xs + sleepTotal ys"
  by (induction xs rule: sleepTotal.induct) simp_all

lemma sleepTotal_rounds: "sleepTotal (rounds n vid) = n * pollIntervalMs"
  by (induction n) simp_all

text \<open>The two constants agree: 300 seconds against 30 waits of 10 seconds.\<close>

lemma max_duration_equals_poll_budget:
  "maxDuration = maxAttempts * (pollIntervalMs div 1000)"
  by (simp add: maxDuration_def maxAttempts_def pollIntervalMs_def)

text \<open>
  C9 does not hold of the constants in the code. For a job that never leaves
  \<open>processing\<close>, the poll spends 30 waits of 10 seconds, the one after the 30th check
  included, before it throws the time-out error: its waits alone take the whole
  \<open>maxDuration\<close> of 300 seconds, which therefore does not exceed the poll ceiling times
  the interval.
\<close>

theorem timeout_path_waits_whole_max_duration:
  "fst (pollVideoStatus ex_world_stuck (JStr ''job_7'')) =
     Inl (Error ''HeyGen video generation timed out.'') \<and>
   sleepTotal (snd (pollVideoStatus ex_world_stuck (JStr ''job_7''))) = maxDuration * 1000 \<and>
   \<not> maxDuration > maxAttempts * (pollIntervalMs div 1000)"
proof -
  have "pollVideoStatus ex_world_stuck (JStr ''job_7'') =
        pollLoop (status_reply ex_world_stuck) (JStr ''job_7'') (JStr []) (JStr []) 30
          (rounds 30 (JStr ''job_7''))"
    using ex_world_stuck_processing
    by (intro pollVideoStatus_rounds [where idText = "''job_7''"]) (simp_all add: maxAttempts_def)
  also have "\<dots> = (Inl (Error ''HeyGen video generation timed out.''),
                     rounds 30 (JStr ''job_7''))"
    by (subst pollLoop.simps) (simp add: maxAttempts_def afterLoop_def)
  finally show ?thesis
    by (simp add: sleepTotal_rounds maxDuration_def maxAttempts_def pollIntervalMs_def)
qed


section \<open>The handlers\<close>

lemma destructuredD:
  "destructured req audioField = Some (img, aud) \<Longrightarrow>
   \<exists>b. req_json req = Inr b \<and> getProp b ''imageBase64'' = Inr img \<and>
       getProp b audioField = Inr aud"
  by (auto simp: destructured_def split: sum.splits)

text \<open>With configuration and inputs present and the upload done, the \<open>try\<close> block of the
  blob variant is steps 1--3 run on the staged URL.\<close>

lemma handler_blob_try_staged:
  assumes "configured (HEYGEN_API_KEY e)" "configured (BLOB_READ_WRITE_TOKEN e)"
    and "destructured req ''audioBase64'' = Some (img, aud)" "truthy img" "truthy aud"
    and "put_reply w = PutResolves url"
  shows "handler_blob_try e w req =
         (fst (runSteps w img (JStr url) [PutBlob aud]), url,
          snd (runSteps w img (JStr url) [PutBlob aud]))"
proof -
  from destructuredD [OF assms(3)] obtain b where "req_json req = Inr b"
    "getProp b ''imageBase64'' = Inr img" "getProp b ''audioBase64'' = Inr aud"
    by blast
  then show ?thesis
    using assms(1,2,4-6) by (simp add: handler_blob_try_def split: prod.split)
qed

lemma cleanup_staged:
  "url \<noteq> [] \<Longrightarrow>
   cleanup w url = DeleteBlob url # (case del_reply w of None \<Rightarrow> [] | Some x \<Rightarrow> [ConsoleError])"
  by (simp add: cleanup_def split: option.split)

lemma cleanup_deletions: "url \<noteq> [] \<Longrightarrow> deletions (cleanup w url) = 1"
  by (simp add: cleanup_staged split: option.split)

subsection \<open>Facts about the example invocations\<close>

lemma ex_request_fields:
  "destructured ex_request ''audioBase64'' = Some (JStr ''IMG'', JStr ''AUD'')"
  by (simp add: destructured_def ex_request_def)

lemma ex_url_request_fields:
  "destructured ex_url_request ''audioUrl'' = Some (JStr ''IMG'', JStr ''https://host/a.wav'')"
  by (simp add: destructured_def ex_url_request_def)

lemma ex_request_post: "http_method ex_request = ''POST''"
  by (simp add: ex_request_def)

lemma ex_env_configured:
  "configured (HEYGEN_API_KEY ex_env)" "configured (BLOB_READ_WRITE_TOKEN ex_env)"
  by (simp_all add: ex_env_def)

lemma ex_world_processing: "\<forall>j. 1 \<le> j \<and> j < 3 \<longrightarrow> processingAt ex_world j"
  by (simp add: processingAt_def ex_world_def dataReply_def jsonReply_def jsonData_def)

lemma ex_world_succeeds: "succeededAt ex_world 3 (JStr ''https://cdn/out.mp4'')"
  by (simp add: succeededAt_def ex_world_def dataReply_def jsonReply_def jsonData_def)

lemma ex_world_avatar: "avatarCreated ex_world (JStr ''avatar_42'')"
  by (simp add: avatarCreated_def ex_world_def dataReply_def jsonReply_def jsonData_def)

lemma ex_world_job: "jobSubmitted ex_world (JStr ''job_7'')"
  by (simp add: jobSubmitted_def ex_world_def dataReply_def jsonReply_def jsonData_def)

lemma ex_job_text: "toString (JStr ''job_7'') = Inr ''job_7''"
  by simp

lemma ex_world_no_url_succeeds: "succeededAt ex_world_no_url 1 JUndefined"
  by (simp add: succeededAt_def ex_world_no_url_def ex_world_def dataReply_def jsonReply_def
      jsonData_def)

subsection \<open>Success\<close>

text \<open>
  C1, as the code has it. For a \<open>POST\<close> request with both inputs present, on a
  configured server, whose upload, avatar creation and submission succeed, the submission
  giving a video id the status URL can be built from (as every string is): if the
  provider answers \<open>succeeded\<close> at status check \<open>n \<le> 30\<close> (the checks before it being
  processing), the blob handler answers 200 with exactly the \<open>video_url\<close> value \<open>v\<close> of
  that answer, after \<open>n\<close> checks and the clean-up. The returned value is a non-empty URL
  exactly when the provider's \<open>video_url\<close> is a non-empty string; the handler does not
  check it.
\<close>

theorem handler_blob_returns_provider_url:
  assumes "http_method req = ''POST''"
    and "configured (HEYGEN_API_KEY e)" "configured (BLOB_READ_WRITE_TOKEN e)"
    and "destructured req ''audioBase64'' = Some (img, aud)" "truthy img" "truthy aud"
    and "put_reply w = PutResolves url"
    and "avatarCreated w aid" "jobSubmitted w vid" "toString vid = Inr idText"
    and "1 \<le> n" "n \<le> 30" "\<forall>j. 1 \<le> j \<and> j < n \<longrightarrow> processingAt w j"
    and "succeededAt w n v"
  shows "handler_blob e w req =
           (Response 200 (VideoUrlBody v),
            [PutBlob aud, CreateAvatar img, GenerateVideo aid (JStr url)] @
            rounds (n - 1) vid @ [StatusCheck vid] @ cleanup w url)
         \<and> (returnsVideoUrl (fst (handler_blob e w req)) \<longleftrightarrow> (\<exists>u. v = JStr u \<and> u \<noteq> []))"
proof -
  have steps: "runSteps w img (JStr url) [PutBlob aud] =
      (Inr (Response 200 (VideoUrlBody v)),
       [PutBlob aud] @ [CreateAvatar img, GenerateVideo aid (JStr url)] @
       rounds (n - 1) vid @ [StatusCheck vid])"
    by (rule runSteps_succeeds [OF assms(8,9,11-14,10)])
  have "handler_blob e w req =
      (Response 200 (VideoUrlBody v),
       [PutBlob aud, CreateAvatar img, GenerateVideo aid (JStr url)] @
       rounds (n - 1) vid @ [StatusCheck vid] @ cleanup w url)"
    using assms(1) handler_blob_try_staged [OF assms(2-7)] steps
    by (simp add: handler_blob_def)
  moreover have "returnsVideoUrl (Response 200 (VideoUrlBody v)) \<longleftrightarrow> (\<exists>u. v = JStr u \<and> u \<noteq> [])"
    by (cases v) simp_all
  ultimately show ?thesis by simp
qed

text \<open>The end-to-end scenario: the URL comes back, the staged blob is deleted once.\<close>

theorem handler_blob_returns_provider_url_witness:
  "handler_blob ex_env ex_world ex_request =
     (Response 200 (VideoUrlBody (JStr ''https://cdn/out.mp4'')),
      [PutBlob (JStr ''AUD''), CreateAvatar (JStr ''IMG''),
       GenerateVideo (JStr ''avatar_42'') (JStr ''https://store/ex1.wav''),
       StatusCheck (JStr ''job_7''), Sleep 10000,
       StatusCheck (JStr ''job_7''), Sleep 10000,
       StatusCheck (JStr ''job_7''),
       DeleteBlob ''https://store/ex1.wav''])"
proof -
  have staged: "put_reply ex_world = PutResolves ''https://store/ex1.wav''"
    by (simp add: ex_world_def)
  have "handler_blob ex_env ex_world ex_request =
      (Response 200 (VideoUrlBody (JStr ''https://cdn/out.mp4'')),
       [PutBlob (JStr ''AUD''), CreateAvatar (JStr ''IMG''),
        GenerateVideo (JStr ''avatar_42'') (JStr ''https://store/ex1.wav'')] @
       rounds (3 - 1) (JStr ''job_7'') @ [StatusCheck (JStr ''job_7'')] @
       cleanup ex_world ''https://store/ex1.wav'')"
    using handler_blob_returns_provider_url [OF ex_request_post ex_env_configured
        ex_request_fields _ _ staged ex_world_avatar ex_world_job ex_job_text _ _
        ex_world_processing ex_world_succeeds]
    by simp
  then show ?thesis
    by (simp add: cleanup_def ex_world_def numeral_2_eq_2 pollIntervalMs_def)
qed

text \<open>
  C1 as stated fails: a provider that answers \<open>succeeded\<close> on the first check without a
  \<open>video_url\<close> field gets a 200 response carrying no URL.
\<close>

theorem succeeded_without_url_counterexample:
  "succeededAt ex_world_no_url 1 JUndefined \<and>
   handler_blob ex_env ex_world_no_url ex_request =
     (Response 200 (VideoUrlBody JUndefined),
      [PutBlob (JStr ''AUD''), CreateAvatar (JStr ''IMG''),
       GenerateVideo (JStr ''avatar_42'') (JStr ''https://store/ex1.wav''),
       StatusCheck (JStr ''job_7''), DeleteBlob ''https://store/ex1.wav'']) \<and>
   \<not> returnsVideoUrl (fst (handler_blob ex_env ex_world_no_url ex_request))"
proof -
  have avatar: "avatarCreated ex_world_no_url (JStr ''avatar_42'')"
    by (simp add: avatarCreated_def ex_world_no_url_def ex_world_def dataReply_def jsonReply_def
        jsonData_def)
  have job: "jobSubmitted ex_world_no_url (JStr ''job_7'')"
    by (simp add: jobSubmitted_def ex_world_no_url_def ex_world_def dataReply_def jsonReply_def
        jsonData_def)
  have staged: "put_reply ex_world_no_url = PutResolves ''https://store/ex1.wav''"
    by (simp add: ex_world_no_url_def ex_world_def)
  have steps: "runSteps ex_world_no_url (JStr ''IMG'') (JStr ''https://store/ex1.wav'')
        [PutBlob (JStr ''AUD'')] =
      (Inr (Response 200 (VideoUrlBody JUndefined)),
       [PutBlob (JStr ''AUD'')] @
       [CreateAvatar (JStr ''IMG''),
        GenerateVideo (JStr ''avatar_42'') (JStr ''https://store/ex1.wav'')] @
       rounds (1 - 1) (JStr ''job_7'') @ [StatusCheck (JStr ''job_7'')])"
    by (rule runSteps_succeeds [OF avatar job _ _ _ ex_world_no_url_succeeds ex_job_text])
       simp_all
  have "handler_blob ex_env ex_world_no_url ex_request =
     (Response 200 (VideoUrlBody JUndefined),
      [PutBlob (JStr ''AUD''), CreateAvatar (JStr ''IMG''),
       GenerateVideo (JStr ''avatar_42'') (JStr ''https://store/ex1.wav''),
       StatusCheck (JStr ''job_7''), DeleteBlob ''https://store/ex1.wav''])"
    using handler_blob_try_staged [OF ex_env_configured ex_request_fields _ _ staged] steps
      ex_request_post
    by (simp add: handler_blob_def cleanup_def ex_world_no_url_def ex_world_def)
  then show ?thesis
    using ex_world_no_url_succeeds by simp
qed

text \<open>The two proxies that take an audio URL behave alike, without staging or clean-up.\<close>

lemma handler_returns_provider_url:
  assumes "http_method req = ''POST''" "configured (HEYGEN_API_KEY e)"
    and "destructured req ''audioUrl'' = Some (img, aud)" "truthy img" "truthy aud"
    and "avatarCreated w aid" "jobSubmitted w vid"
    and "1 \<le> n" "n \<le> 30" "\<forall>j. 1 \<le> j \<and> j < n \<longrightarrow> processingAt w j"
    and "succeededAt w n v" "toString vid = Inr idText"
  shows "handler e w req =
           (Response 200 (VideoUrlBody v),
            [CreateAvatar img, GenerateVideo aid aud] @ rounds (n - 1) vid @ [StatusCheck vid])"
proof -
  from destructuredD [OF assms(3)] obtain b where b: "req_json req = Inr b"
    "getProp b ''imageBase64'' = Inr img" "getProp b ''audioUrl'' = Inr aud"
    by blast
  have "handler_try e w req = runSteps w img aud []"
    using b assms(2,4,5) by (simp add: handler_try_def)
  then show ?thesis
    using assms(1) runSteps_succeeds [OF assms(6-12), of img aud "[]"]
    by (simp add: handler_def)
qed

lemma serve_returns_provider_url:
  assumes "http_method req \<noteq> ''OPTIONS''"
    and "destructured req ''audioUrl'' = Some (img, aud)" "truthy img" "truthy aud"
    and "req_json req = Inr b" "truthy (getPropOpt b ''apiKey'')"
    and "toString (getPropOpt b ''apiKey'') = Inr keyText"
    and "avatarCreated w aid" "jobSubmitted w vid"
    and "1 \<le> n" "n \<le> 30" "\<forall>j. 1 \<le> j \<and> j < n \<longrightarrow> processingAt w j"
    and "succeededAt w n v" "toString vid = Inr idText"
  shows "serve w req =
           (Response 200 (VideoUrlBody v),
            [CreateAvatar img, GenerateVideo aid aud] @ rounds (n - 1) vid @ [StatusCheck vid])"
proof -
  from destructuredD [OF assms(2)] assms(5) have b:
    "getProp b ''imageBase64'' = Inr img" "getProp b ''audioUrl'' = Inr aud"
    by auto
  have key: "getProp b ''apiKey'' = Inr (getPropOpt b ''apiKey'')"
    by (rule getProp_after_status [OF b(1)])
  have "serve_try w req = runSteps w img aud []"
    using b key assms(3-7) by (simp add: serve_try_def)
  then show ?thesis
    using assms(1) runSteps_succeeds [OF assms(8-14), of img aud "[]"]
    by (simp add: serve_def)
qed

subsection \<open>Clean-up\<close>

text \<open>
  C2. Whenever the blob handler has staged the audio (the upload resolved and
  \<open>publicAudioUrl\<close> holds its non-empty URL), its effects contain exactly one deletion:
  they are the effects of steps 1--3, which delete nothing, followed by the \<open>finally\<close>
  block, which calls \<open>del\<close> on that URL once, whatever steps 1--3 did. The response is
  the one steps 1--3 produced (their success response, or 500 with the message of the
  error they threw), and it is the same whether \<open>del\<close> resolves or rejects, since a
  rejection is caught and only logged.
\<close>

theorem staged_asset_deleted_exactly_once:
  assumes "http_method req = ''POST''"
    and "configured (HEYGEN_API_KEY e)" "configured (BLOB_READ_WRITE_TOKEN e)"
    and "destructured req ''audioBase64'' = Some (img, aud)" "truthy img" "truthy aud"
    and "put_reply w = PutResolves url" "url \<noteq> []"
  shows "deletions (snd (handler_blob e w req)) = 1
         \<and> (\<exists>log. snd (handler_blob e w req) = log @ cleanup w url \<and> deletions log = 0)
         \<and> cleanup w url =
             DeleteBlob url # (case del_reply w of None \<Rightarrow> [] | Some x \<Rightarrow> [ConsoleError])
         \<and> fst (handler_blob e w req) =
             (case fst (runSteps w img (JStr url) [PutBlob aud]) of
                Inl err \<Rightarrow> Response 500 (CaughtError err)
              | Inr resp \<Rightarrow> resp)
         \<and> fst (handler_blob e (w\<lparr>del_reply := d\<rparr>) req) = fst (handler_blob e w req)"
proof -
  let ?steps = "runSteps w img (JStr url) [PutBlob aud]"
  have no_del: "deletions (snd ?steps) = 0"
    by (simp add: runSteps_deletions)
  have try_w: "handler_blob_try e w req = (fst ?steps, url, snd ?steps)"
    by (rule handler_blob_try_staged [OF assms(2-7)])
  have try_d: "handler_blob_try e (w\<lparr>del_reply := d\<rparr>) req = (fst ?steps, url, snd ?steps)"
    using handler_blob_try_staged [OF assms(2-6), of "w\<lparr>del_reply := d\<rparr>" url] assms(7)
    by (simp add: runSteps_del_reply)
  have log: "snd (handler_blob e w req) =
      (case fst ?steps of Inl err \<Rightarrow> snd ?steps @ [ConsoleError] | Inr resp \<Rightarrow> snd ?steps) @
      cleanup w url"
    using assms(1) try_w by (simp add: handler_blob_def split: sum.split)
  have pre: "deletions (case fst ?steps of Inl err \<Rightarrow> snd ?steps @ [ConsoleError]
                                          | Inr resp \<Rightarrow> snd ?steps) = 0"
    using no_del by (simp add: deletions_append split: sum.split)
  have once: "deletions (snd (handler_blob e w req)) = 1"
    unfolding log using pre cleanup_deletions [OF assms(8), of w] by (simp add: deletions_append)
  have reply: "fst (handler_blob e w' req) =
      (case fst ?steps of Inl err \<Rightarrow> Response 500 (CaughtError err) | Inr resp \<Rightarrow> resp)"
    if "handler_blob_try e w' req = (fst ?steps, url, snd ?steps)" for w'
    using assms(1) that by (simp add: handler_blob_def split: sum.split)
  show ?thesis
    using once log pre cleanup_staged [OF assms(8), of w] reply [OF try_w] reply [OF try_d]
    by auto
qed

text \<open>The avatar call fails and the deletion fails too: one deletion, the avatar error returned.\<close>

theorem staged_asset_deleted_witness:
  "deletions (snd (handler_blob ex_env ex_world_invalid_image ex_request)) = 1 \<and>
   fst (handler_blob ex_env ex_world_invalid_image ex_request) =
     Response 500 (CaughtError (Error ''HeyGen avatar creation failed: invalid image'')) \<and>
   fst (handler_blob ex_env (ex_world_invalid_image\<lparr>del_reply := None\<rparr>) ex_request) =
     fst (handler_blob ex_env ex_world_invalid_image ex_request)"
proof -
  have steps: "runSteps ex_world_invalid_image (JStr ''IMG'') (JStr ''https://store/ex1.wav'')
        [PutBlob (JStr ''AUD'')] =
      (Inl (Error (''HeyGen avatar creation failed: '' @ text_body ex_invalid_image)),
       [PutBlob (JStr ''AUD'')] @ [CreateAvatar (JStr ''IMG'')])"
    by (rule runSteps_avatar_rejected)
       (simp_all add: ex_world_invalid_image_def ex_world_def ex_invalid_image_def)
  have staged: "put_reply ex_world_invalid_image = PutResolves ''https://store/ex1.wav''"
    by (simp add: ex_world_invalid_image_def ex_world_def)
  from staged_asset_deleted_exactly_once [OF ex_request_post ex_env_configured
      ex_request_fields _ _ staged, of None]
  show ?thesis
    by (simp add: steps ex_invalid_image_def)
qed


subsection \<open>Missing input\<close>

text \<open>Without a body to bind the inputs from, the \<open>try\<close> blocks throw before any call.\<close>

lemma no_body_throws:
  assumes "destructured req audioField = None"
  shows "audioField = ''audioUrl'' \<Longrightarrow> \<exists>x. handler_try e w req = (Inl x, [])"
    and "audioField = ''audioBase64'' \<Longrightarrow> \<exists>x. handler_blob_try e w req = (Inl x, [], [])"
    and "audioField = ''audioUrl'' \<Longrightarrow> \<exists>x. serve_try w req = (Inl x, [])"
  using assms
  by (auto simp: destructured_def handler_try_def handler_blob_try_def serve_try_def
           split: sum.splits)

lemma no_body_no_calls:
  assumes "http_method req = ''POST''"
  shows "destructured req ''audioUrl'' = None \<Longrightarrow> networkCalls (snd (handler e w req)) = []"
    and "destructured req ''audioBase64'' = None \<Longrightarrow>
         networkCalls (snd (handler_blob e w req)) = []"
    and "destructured req ''audioUrl'' = None \<Longrightarrow> networkCalls (snd (serve w req)) = []"
proof -
  show "networkCalls (snd (handler e w req)) = []" if "destructured req ''audioUrl'' = None"
    using no_body_throws(1) [OF that refl, of e w] assms
    by (auto simp: handler_def networkCalls_def)
  show "networkCalls (snd (handler_blob e w req)) = []"
    if "destructured req ''audioBase64'' = None"
    using no_body_throws(2) [OF that refl, of e w] assms
    by (auto simp: handler_blob_def networkCalls_def cleanup_def)
  show "networkCalls (snd (serve w req)) = []" if "destructured req ''audioUrl'' = None"
    using no_body_throws(3) [OF that refl, of w] assms
    by (auto simp: serve_def networkCalls_def)
qed

text \<open>With a body, a falsy input is answered by the first check that fails.\<close>

lemma falsy_input_answers:
  assumes "http_method req = ''POST''"
    and "destructured req audioField = Some (img, aud)" "\<not> truthy img \<or> \<not> truthy aud"
  shows "audioField = ''audioUrl'' \<Longrightarrow>
         handler e w req =
           (if configured (HEYGEN_API_KEY e)
            then (Response 400 (JsonError ''Missing imageBase64 or audioUrl''), [])
            else (Response 500 (JsonError ''HeyGen API key is not configured on the server. Please set the HEYGEN_API_KEY environment variable in your Vercel project.''), []))"
    and "audioField = ''audioBase64'' \<Longrightarrow>
         handler_blob e w req =
           (if \<not> configured (HEYGEN_API_KEY e)
            then (Response 500 (JsonError ''HeyGen API key is not configured. Set HEYGEN_API_KEY in Vercel environment variables.''), [])
            else if \<not> configured (BLOB_READ_WRITE_TOKEN e)
            then (Response 500 (JsonError ''Vercel Blob storage is not configured. Please enable it for your project.''), [])
            else (Response 400 (JsonError ''Missing imageBase64 or audioBase64''), []))"
    and "audioField = ''audioUrl'' \<Longrightarrow>
         serve w req =
           (Response 400 (JsonError ''Missing imageBase64, audioUrl, or apiKey''), [])"
proof -
  from destructuredD [OF assms(2)] obtain b where b: "req_json req = Inr b"
    "getProp b ''imageBase64'' = Inr img" "getProp b audioField = Inr aud"
    by blast
  have key: "getProp b ''apiKey'' = Inr (getPropOpt b ''apiKey'')"
    by (rule getProp_after_status [OF b(2)])
  show "handler e w req =
      (if configured (HEYGEN_API_KEY e)
       then (Response 400 (JsonError ''Missing imageBase64 or audioUrl''), [])
       else (Response 500 (JsonError ''HeyGen API key is not configured on the server. Please set the HEYGEN_API_KEY environment variable in your Vercel project.''), []))"
    if "audioField = ''audioUrl''"
    using b that assms(1,3) by (auto simp: handler_def handler_try_def)
  show "handler_blob e w req =
      (if \<not> configured (HEYGEN_API_KEY e)
       then (Response 500 (JsonError ''HeyGen API key is not configured. Set HEYGEN_API_KEY in Vercel environment variables.''), [])
       else if \<not> configured (BLOB_READ_WRITE_TOKEN e)
       then (Response 500 (JsonError ''Vercel Blob storage is not configured. Please enable it for your project.''), [])
       else (Response 400 (JsonError ''Missing imageBase64 or audioBase64''), []))"
    if "audioField = ''audioBase64''"
    using b that assms(1,3) by (auto simp: handler_blob_def handler_blob_try_def cleanup_def)
  show "serve w req =
      (Response 400 (JsonError ''Missing imageBase64, audioUrl, or apiKey''), [])"
    if "audioField = ''audioUrl''"
    using b key that assms(1,3) by (auto simp: serve_def serve_try_def)
qed

text \<open>
  C6, as the code has it. For every \<open>POST\<close> request that does not supply the image or
  the audio input, the three proxies issue no network call. When the request has a body
  to read the inputs from and one of them is falsy, the answer is the 400 validation
  error if the configuration the variant requires is present (it always is for the
  Supabase function, which requires none), and otherwise, on a Vercel deployment without
  its credential or blob token, the 500 configuration error of the check that comes first.
\<close>

theorem missing_input_rejected_without_calls:
  assumes "http_method req = ''POST''"
  shows "(missingInput req ''audioUrl'' \<longrightarrow>
            networkCalls (snd (handler e w req)) = [] \<and>
            networkCalls (snd (serve w req)) = [])
         \<and> (missingInput req ''audioBase64'' \<longrightarrow>
            networkCalls (snd (handler_blob e w req)) = [])
         \<and> (\<forall>img aud. destructured req ''audioUrl'' = Some (img, aud) \<and>
                      (\<not> truthy img \<or> \<not> truthy aud) \<longrightarrow>
              handler e w req =
                (if configured (HEYGEN_API_KEY e)
                 then (Response 400 (JsonError ''Missing imageBase64 or audioUrl''), [])
                 else (Response 500 (JsonError ''HeyGen API key is not configured on the server. Please set the HEYGEN_API_KEY environment variable in your Vercel project.''), [])) \<and>
              serve w req =
                (Response 400 (JsonError ''Missing imageBase64, audioUrl, or apiKey''), []))
         \<and> (\<forall>img aud. destructured req ''audioBase64'' = Some (img, aud) \<and>
                      (\<not> truthy img \<or> \<not> truthy aud) \<longrightarrow>
              handler_blob e w req =
                (if \<not> configured (HEYGEN_API_KEY e)
                 then (Response 500 (JsonError ''HeyGen API key is not configured. Set HEYGEN_API_KEY in Vercel environment variables.''), [])
                 else if \<not> configured (BLOB_READ_WRITE_TOKEN e)
                 then (Response 500 (JsonError ''Vercel Blob storage is not configured. Please enable it for your project.''), [])
                 else (Response 400 (JsonError ''Missing imageBase64 or audioBase64''), [])))"
proof -
  have a: "networkCalls (snd (handler e w req)) = [] \<and> networkCalls (snd (serve w req)) = []"
    if "missingInput req ''audioUrl''"
  proof (cases "destructured req ''audioUrl''")
    case None
    then show ?thesis
      using no_body_no_calls(1,3) [OF assms] by simp
  next
    case (Some p)
    then obtain img aud where p: "destructured req ''audioUrl'' = Some (img, aud)"
      by (cases p) simp
    with that have falsy: "\<not> truthy img \<or> \<not> truthy aud"
      by (simp add: missingInput_def)
    from falsy_input_answers(1) [OF assms p falsy refl, of e w]
      falsy_input_answers(3) [OF assms p falsy refl, of w]
    show ?thesis
      by (simp add: networkCalls_def)
  qed
  have b: "networkCalls (snd (handler_blob e w req)) = []"
    if "missingInput req ''audioBase64''"
  proof (cases "destructured req ''audioBase64''")
    case None
    then show ?thesis
      using no_body_no_calls(2) [OF assms] by simp
  next
    case (Some p)
    then obtain img aud where p: "destructured req ''audioBase64'' = Some (img, aud)"
      by (cases p) simp
    with that have "\<not> truthy img \<or> \<not> truthy aud"
      by (simp add: missingInput_def)
    from falsy_input_answers(2) [OF assms p this refl, of e w] show ?thesis
      by (simp add: networkCalls_def)
  qed
  show ?thesis
    using a b falsy_input_answers [OF assms] by blast
qed

lemma ex_empty_request_fields:
  "destructured ex_empty_request ''audioUrl'' = Some (JUndefined, JUndefined)"
  "destructured ex_empty_request ''audioBase64'' = Some (JUndefined, JUndefined)"
  by (simp_all add: destructured_def ex_empty_request_def)

lemma ex_empty_request_post: "http_method ex_empty_request = ''POST''"
  by (simp add: ex_empty_request_def)

lemma ex_env_no_key_unconfigured: "\<not> configured (HEYGEN_API_KEY ex_env_no_key)"
  by (simp add: ex_env_no_key_def)

theorem missing_input_witness:
  "missingInput ex_empty_request ''audioUrl'' \<and>
   handler ex_env ex_world ex_empty_request =
     (Response 400 (JsonError ''Missing imageBase64 or audioUrl''), []) \<and>
   handler_blob ex_env ex_world ex_empty_request =
     (Response 400 (JsonError ''Missing imageBase64 or audioBase64''), []) \<and>
   serve ex_world ex_empty_request =
     (Response 400 (JsonError ''Missing imageBase64, audioUrl, or apiKey''), [])"
proof -
  have missing: "missingInput ex_empty_request ''audioUrl''"
    by (simp add: missingInput_def ex_empty_request_fields)
  from missing_input_rejected_without_calls [OF ex_empty_request_post, of ex_env ex_world]
  show ?thesis
    using missing ex_empty_request_fields ex_env_configured by simp
qed

text \<open>
  C6 as stated fails: on a server without the provider credential the same request is
  answered with the configuration error, status 500, not with the validation error.
\<close>

theorem missing_input_unconfigured_counterexample:
  "missingInput ex_empty_request ''audioUrl'' \<and>
   handler ex_env_no_key ex_world ex_empty_request =
     (Response 500 (JsonError ''HeyGen API key is not configured on the server. Please set the HEYGEN_API_KEY environment variable in your Vercel project.''), []) \<and>
   status_of (fst (handler ex_env_no_key ex_world ex_empty_request)) \<noteq> 400"
proof -
  have missing: "missingInput ex_empty_request ''audioUrl''"
    by (simp add: missingInput_def ex_empty_request_fields)
  have "handler ex_env_no_key ex_world ex_empty_request = (Response 500 (JsonError ''HeyGen API key is not configured on the server. Please set the HEYGEN_API_KEY environment variable in your Vercel project.''), [])"
    using falsy_input_answers(1) [OF ex_empty_request_post ex_empty_request_fields(1) _ refl,
        of ex_env_no_key ex_world] ex_env_no_key_unconfigured
    by simp
  then show ?thesis
    using missing by simp
qed

subsection \<open>Avatar creation rejected\<close>

text \<open>
  C7. The audio is given as a URL (first Vercel handler), the server is configured and
  both inputs are present. If the avatar call is answered with a response that is not
  \<open>ok\<close> and whose body is \<open>invalid image\<close>, the handler answers 500 with the message
  \<open>HeyGen avatar creation failed: invalid image\<close>. The avatar call is its only network
  call: no submission, no status check, no deletion.
\<close>

theorem avatar_rejection_stops_pipeline:
  assumes "http_method req = ''POST''" "configured (HEYGEN_API_KEY e)"
    and "destructured req ''audioUrl'' = Some (img, aud)" "truthy img" "truthy aud"
    and "avatar_reply w = Inr r" "\<not> ok r" "text_body r = ''invalid image''"
  shows "handler e w req =
           (Response 500 (CaughtError (Error ''HeyGen avatar creation failed: invalid image'')),
            [CreateAvatar img, ConsoleError])
         \<and> networkCalls (snd (handler e w req)) = [CreateAvatar img]
         \<and> statusChecks (snd (handler e w req)) = 0
         \<and> deletions (snd (handler e w req)) = 0"
proof -
  from destructuredD [OF assms(3)] obtain b where b: "req_json req = Inr b"
    "getProp b ''imageBase64'' = Inr img" "getProp b ''audioUrl'' = Inr aud"
    by blast
  have "handler_try e w req =
      (Inl (Error (''HeyGen avatar creation failed: '' @ text_body r)), [] @ [CreateAvatar img])"
    using b assms(2,4,5) runSteps_avatar_rejected [OF assms(6,7), of img aud "[]"]
    by (simp add: handler_try_def)
  then have "handler e w req =
      (Response 500 (CaughtError (Error ''HeyGen avatar creation failed: invalid image'')),
       [CreateAvatar img, ConsoleError])"
    using assms(1,8) by (simp add: handler_def)
  then show ?thesis
    by (simp add: networkCalls_def statusChecks_def)
qed

theorem avatar_rejection_witness:
  "handler ex_env ex_world_invalid_image ex_url_request =
     (Response 500 (CaughtError (Error ''HeyGen avatar creation failed: invalid image'')),
      [CreateAvatar (JStr ''IMG''), ConsoleError])"
proof -
  have post: "http_method ex_url_request = ''POST''"
    by (simp add: ex_url_request_def)
  have reply: "avatar_reply ex_world_invalid_image = Inr ex_invalid_image"
    by (simp add: ex_world_invalid_image_def)
  have bad: "\<not> ok ex_invalid_image" "text_body ex_invalid_image = ''invalid image''"
    by (simp_all add: ex_invalid_image_def)
  from avatar_rejection_stops_pipeline [OF post ex_env_configured(1) ex_url_request_fields _ _
      reply bad]
  show ?thesis by simp
qed

text \<open>The Supabase function, which also takes an audio URL, stops in the same way.\<close>

lemma serve_avatar_rejection:
  assumes "http_method req \<noteq> ''OPTIONS''"
    and "destructured req ''audioUrl'' = Some (img, aud)" "truthy img" "truthy aud"
    and "req_json req = Inr b" "truthy (getPropOpt b ''apiKey'')"
    and "toString (getPropOpt b ''apiKey'') = Inr keyText"
    and "avatar_reply w = Inr r" "\<not> ok r" "text_body r = ''invalid image''"
  shows "serve w req =
           (Response 500 (CaughtError (Error ''HeyGen avatar creation failed: invalid image'')),
            [CreateAvatar img, ConsoleError])"
proof -
  from destructuredD [OF assms(2)] assms(5) have b:
    "getProp b ''imageBase64'' = Inr img" "getProp b ''audioUrl'' = Inr aud"
    by auto
  have key: "getProp b ''apiKey'' = Inr (getPropOpt b ''apiKey'')"
    by (rule getProp_after_status [OF b(1)])
  have "serve_try w req = runSteps w img aud []"
    using b key assms(3-7) by (simp add: serve_try_def)
  then show ?thesis
    using assms(1,10) runSteps_avatar_rejected [OF assms(8,9), of img aud "[]"]
    by (simp add: serve_def)
qed

subsection \<open>Verbs\<close>

text \<open>All three proxies answer the pre-flight; the two Vercel handlers reject other verbs.\<close>

lemma preflight_answered:
  assumes "http_method req = ''OPTIONS''"
  shows "handler e w req = (Response 200 (TextBody ''ok''), [])"
    and "handler_blob e w req = (Response 200 (TextBody ''ok''), [])"
    and "serve w req = (Response 200 (TextBody ''ok''), [])"
  using assms by (simp_all add: handler_def handler_blob_def serve_def)

lemma vercel_rejects_other_verbs:
  assumes "http_method req \<noteq> ''OPTIONS''" "http_method req \<noteq> ''POST''"
  shows "handler e w req = (Response 405 (JsonError ''Method not allowed''), [])"
    and "handler_blob e w req = (Response 405 (JsonError ''Method not allowed''), [])"
  using assms by (simp_all add: handler_def handler_blob_def)

lemma serve_ignores_verb:
  assumes "http_method req \<noteq> ''OPTIONS''"
  shows "serve w req = serve w (req\<lparr>http_method := ''POST''\<rparr>)"
  using assms by (simp add: serve_def serve_try_def)

text \<open>
  C8 does not hold for the Supabase function: it tests for \<open>OPTIONS\<close> only, so a
  submission sent with \<open>PUT\<close> is processed like a \<open>POST\<close> (avatar call, submission,
  polling, 200), where the Vercel handler answers the same request with 405.
\<close>

theorem serve_accepts_put:
  "http_method ex_put_request = ''PUT'' \<and>
   serve ex_world ex_put_request =
     (Response 200 (VideoUrlBody (JStr ''https://cdn/out.mp4'')),
      [CreateAvatar (JStr ''IMG''),
       GenerateVideo (JStr ''avatar_42'') (JStr ''https://host/a.wav''),
       StatusCheck (JStr ''job_7''), Sleep 10000,
       StatusCheck (JStr ''job_7''), Sleep 10000,
       StatusCheck (JStr ''job_7'')]) \<and>
   handler ex_env ex_world ex_put_request =
     (Response 405 (JsonError ''Method not allowed''), [])"
proof -
  have steps: "runSteps ex_world (JStr ''IMG'') (JStr ''https://host/a.wav'') [] =
      (Inr (Response 200 (VideoUrlBody (JStr ''https://cdn/out.mp4''))),
       [] @ [CreateAvatar (JStr ''IMG''),
             GenerateVideo (JStr ''avatar_42'') (JStr ''https://host/a.wav'')] @
       rounds (3 - 1) (JStr ''job_7'') @ [StatusCheck (JStr ''job_7'')])"
    by (rule runSteps_succeeds [OF ex_world_avatar ex_world_job _ _ ex_world_processing
          ex_world_succeeds ex_job_text]) simp_all
  have "serve_try ex_world ex_put_request =
      runSteps ex_world (JStr ''IMG'') (JStr ''https://host/a.wav'') []"
    by (simp add: serve_try_def ex_put_request_def ex_url_request_def)
  then have "serve ex_world ex_put_request =
     (Response 200 (VideoUrlBody (JStr ''https://cdn/out.mp4'')),
      [CreateAvatar (JStr ''IMG''),
       GenerateVideo (JStr ''avatar_42'') (JStr ''https://host/a.wav''),
       StatusCheck (JStr ''job_7''), Sleep 10000,
       StatusCheck (JStr ''job_7''), Sleep 10000,
       StatusCheck (JStr ''job_7'')])"
    by (simp add: serve_def steps ex_put_request_def ex_url_request_def numeral_2_eq_2
        pollIntervalMs_def)
  moreover have "handler ex_env ex_world ex_put_request =
     (Response 405 (JsonError ''Method not allowed''), [])"
    by (simp add: handler_def ex_put_request_def ex_url_request_def)
  moreover have "http_method ex_put_request = ''PUT''"
    by (simp add: ex_put_request_def)
  ultimately show ?thesis by simp
qed

subsection \<open>Configuration before validation\<close>

lemma handler_try_unconfigured:
  assumes "\<not> configured (HEYGEN_API_KEY e)"
  shows "(\<exists>x. handler_try e w req = (Inl x, [])) \<or>
         handler_try e w req = (Inr (Response 500 (JsonError ''HeyGen API key is not configured on the server. Please set the HEYGEN_API_KEY environment variable in your Vercel project.'')), [])"
  using assms by (simp add: handler_try_def split: sum.split)

lemma handler_blob_try_unconfigured:
  assumes "\<not> configured (HEYGEN_API_KEY e) \<or> \<not> configured (BLOB_READ_WRITE_TOKEN e)"
  shows "(\<exists>x. handler_blob_try e w req = (Inl x, [], [])) \<or>
         (\<exists>m. handler_blob_try e w req = (Inr (Response 500 (JsonError m)), [], []))"
  using assms by (auto simp: handler_blob_try_def split: sum.split)

lemma other_verbs_answered_first:
  assumes "http_method req \<noteq> ''POST''"
  shows "handler e w req =
           (if http_method req = ''OPTIONS'' then (Response 200 (TextBody ''ok''), [])
            else (Response 405 (JsonError ''Method not allowed''), []))"
    and "handler_blob e w req =
           (if http_method req = ''OPTIONS'' then (Response 200 (TextBody ''ok''), [])
            else (Response 405 (JsonError ''Method not allowed''), []))"
  using assms by (simp_all add: handler_def handler_blob_def)

text \<open>
  C10, as the code has it. In the two Vercel handlers the configuration checks come
  before the input check, and after the verb checks and the decoding of the body. For
  every \<open>POST\<close> request arriving when \<open>HEYGEN_API_KEY\<close> (or, in the blob variant, the
  blob token) is absent, no network call is issued; when the request has a body to read
  the inputs from, the answer is the 500 configuration error, whether or not an input is
  missing. Status 400 is answered, to any request, only when the configuration is
  present. A request with another verb is answered before the configuration is looked
  at: \<open>OPTIONS\<close> with \<open>ok\<close>, any other with 405.
\<close>

theorem configuration_checked_before_input:
  "(http_method req = ''POST'' \<and> \<not> configured (HEYGEN_API_KEY e) \<longrightarrow>
      networkCalls (snd (handler e w req)) = [] \<and>
      (destructured req ''audioUrl'' \<noteq> None \<longrightarrow>
         handler e w req = (Response 500 (JsonError ''HeyGen API key is not configured on the server. Please set the HEYGEN_API_KEY environment variable in your Vercel project.''), [])))
   \<and> (http_method req = ''POST'' \<and>
       (\<not> configured (HEYGEN_API_KEY e) \<or> \<not> configured (BLOB_READ_WRITE_TOKEN e)) \<longrightarrow>
      networkCalls (snd (handler_blob e w req)) = [] \<and>
      (destructured req ''audioBase64'' \<noteq> None \<longrightarrow>
         handler_blob e w req =
           (Response 500 (JsonError (if \<not> configured (HEYGEN_API_KEY e) then ''HeyGen API key is not configured. Set HEYGEN_API_KEY in Vercel environment variables.'' else ''Vercel Blob storage is not configured. Please enable it for your project.'')),
            [])))
   \<and> (status_of (fst (handler e w req)) = 400 \<longrightarrow> configured (HEYGEN_API_KEY e))
   \<and> (status_of (fst (handler_blob e w req)) = 400 \<longrightarrow>
        configured (HEYGEN_API_KEY e) \<and> configured (BLOB_READ_WRITE_TOKEN e))
   \<and> (http_method req \<noteq> ''POST'' \<longrightarrow>
        handler e w req =
          (if http_method req = ''OPTIONS'' then (Response 200 (TextBody ''ok''), [])
           else (Response 405 (JsonError ''Method not allowed''), [])) \<and>
        handler_blob e w req =
          (if http_method req = ''OPTIONS'' then (Response 200 (TextBody ''ok''), [])
           else (Response 405 (JsonError ''Method not allowed''), [])))"
proof -
  have a1: "status_of (fst (handler e w req)) = 500 \<and> networkCalls (snd (handler e w req)) = []"
    if "http_method req = ''POST''" "\<not> configured (HEYGEN_API_KEY e)"
    using handler_try_unconfigured [OF that(2), of w req] that(1)
    by (auto simp: handler_def networkCalls_def)
  have a2: "handler e w req = (Response 500 (JsonError ''HeyGen API key is not configured on the server. Please set the HEYGEN_API_KEY environment variable in your Vercel project.''), [])"
    if "http_method req = ''POST''" "\<not> configured (HEYGEN_API_KEY e)"
      "destructured req ''audioUrl'' \<noteq> None"
  proof -
    from that(3) obtain img aud where "destructured req ''audioUrl'' = Some (img, aud)"
      by auto
    from destructuredD [OF this] that(1,2) show ?thesis
      by (auto simp: handler_def handler_try_def)
  qed
  have b1: "status_of (fst (handler_blob e w req)) = 500 \<and>
      networkCalls (snd (handler_blob e w req)) = []"
    if "http_method req = ''POST''"
      "\<not> configured (HEYGEN_API_KEY e) \<or> \<not> configured (BLOB_READ_WRITE_TOKEN e)"
    using handler_blob_try_unconfigured [OF that(2), of w req] that(1)
    by (auto simp: handler_blob_def networkCalls_def cleanup_def)
  have b2: "handler_blob e w req =
      (Response 500 (JsonError (if \<not> configured (HEYGEN_API_KEY e) then ''HeyGen API key is not configured. Set HEYGEN_API_KEY in Vercel environment variables.'' else ''Vercel Blob storage is not configured. Please enable it for your project.'')), [])"
    if "http_method req = ''POST''"
      "\<not> configured (HEYGEN_API_KEY e) \<or> \<not> configured (BLOB_READ_WRITE_TOKEN e)"
      "destructured req ''audioBase64'' \<noteq> None"
  proof -
    from that(3) obtain img aud where "destructured req ''audioBase64'' = Some (img, aud)"
      by auto
    from destructuredD [OF this] that(1,2) show ?thesis
      by (auto simp: handler_blob_def handler_blob_try_def cleanup_def)
  qed
  have c1: "configured (HEYGEN_API_KEY e)" if "status_of (fst (handler e w req)) = 400"
  proof (cases "http_method req = ''POST''")
    case True
    with a1 that show ?thesis by auto
  next
    case False
    with other_verbs_answered_first(1) [OF False, of e w] that show ?thesis
      by (simp split: if_splits)
  qed
  have c2: "configured (HEYGEN_API_KEY e) \<and> configured (BLOB_READ_WRITE_TOKEN e)"
    if "status_of (fst (handler_blob e w req)) = 400"
  proof (cases "http_method req = ''POST''")
    case True
    with b1 that show ?thesis by auto
  next
    case False
    with other_verbs_answered_first(2) [OF False, of e w] that show ?thesis
      by (simp split: if_splits)
  qed
  show ?thesis
    using a1 a2 b1 b2 c1 c2 other_verbs_answered_first [of req e w] by blast
qed

theorem configuration_checked_witness:
  "missingInput ex_empty_request ''audioBase64'' \<and>
   handler_blob ex_env_no_key ex_world ex_empty_request =
     (Response 500 (JsonError ''HeyGen API key is not configured. Set HEYGEN_API_KEY in Vercel environment variables.''), []) \<and>
   networkCalls (snd (handler ex_env_no_key ex_world ex_empty_request)) = []"
proof -
  have fields: "destructured ex_empty_request ''audioBase64'' \<noteq> None"
    by (simp add: ex_empty_request_fields)
  have missing: "missingInput ex_empty_request ''audioBase64''"
    by (simp add: missingInput_def ex_empty_request_fields)
  from configuration_checked_before_input [of ex_empty_request ex_env_no_key ex_world]
  show ?thesis
    using ex_env_no_key_unconfigured ex_empty_request_post fields missing by simp
qed

text \<open>
  C10 as stated fails: on a server without the provider credential a \<open>GET\<close> request is
  answered 405 by the verb check, and a \<open>POST\<close> whose body is \<open>null\<close> is answered 500
  with the message of the \<open>TypeError\<close> that destructuring it throws; neither gets the
  configuration error.
\<close>

theorem unconfigured_other_requests_counterexample:
  "\<not> configured (HEYGEN_API_KEY ex_env_no_key) \<and>
   handler ex_env_no_key ex_world ex_get_request =
     (Response 405 (JsonError ''Method not allowed''), []) \<and>
   handler ex_env_no_key ex_world ex_null_request =
     (Response 500 (CaughtError TypeError), [ConsoleError])"
  by (simp add: handler_def handler_try_def ex_get_request_def ex_null_request_def
      ex_env_no_key_def)

end
